theory Spec2Isabelle
  imports Complex_Main "HOL-Library.Sublist" "HOL-Library.AList"
begin

section \<open>JavaScript values used by the services\<close>

text \<open>
  Numbers are modelled as \<^typ>\<open>real\<close> (no NaN, no rounding), clock readings
  (\<open>Date.now()\<close>, milliseconds) as \<^typ>\<open>int\<close>, strings as \<^typ>\<open>string\<close>
  restricted to ASCII text. A thrown exception is a value of \<open>js_error\<close>;
  a function that may throw returns \<open>js_error + 'a\<close>.
\<close>

datatype js_error = TypeError | Error string

type_synonym vec3 = "real \<times> real \<times> real"

text \<open>\<open>String.prototype.toLowerCase\<close> and \<open>toUpperCase\<close> on ASCII text.\<close>

definition toLowerChar :: "char \<Rightarrow> char" where
  "toLowerChar c =
     (let n = (of_char c :: nat) in if 65 \<le> n \<and> n \<le> 90 then char_of (n + 32) else c)"

definition toUpperChar :: "char \<Rightarrow> char" where
  "toUpperChar c =
     (let n = (of_char c :: nat) in if 97 \<le> n \<and> n \<le> 122 then char_of (n - 32) else c)"

definition toLowerCase :: "string \<Rightarrow> string" where
  "toLowerCase s = map toLowerChar s"

text \<open>\<open>s.includes(t)\<close>: \<open>t\<close> occurs in \<open>s\<close> as a contiguous substring.\<close>

fun str_includes :: "string \<Rightarrow> string \<Rightarrow> bool" where
  "str_includes [] t = (t = [])"
| "str_includes (c # cs) t = (prefix t (c # cs) \<or> str_includes cs t)"

text \<open>The characters matched by the regular expression class \<open>\s\<close> among the
  one-byte characters: tab, line feed, vertical tab, form feed, carriage return,
  space and no-break space.\<close>

definition isWhitespace :: "char \<Rightarrow> bool" where
  "isWhitespace c = ((of_char c :: nat) \<in> {9, 10, 11, 12, 13, 32, 160})"

text \<open>
  \<open>s.split(/\s+/)\<close>: the pieces between the maximal runs of whitespace. A leading
  or trailing run leaves an empty piece at that end, and the empty string splits
  into the one-element list holding the empty string. The flag says that the
  scan is inside a run of whitespace; \<open>cur\<close> holds the current piece reversed.
\<close>

fun split_ws_from :: "bool \<Rightarrow> string \<Rightarrow> string \<Rightarrow> string list" where
  "split_ws_from inRun cur [] = [rev cur]"
| "split_ws_from inRun cur (c # cs) =
     (if isWhitespace c
      then (if inRun then split_ws_from True cur cs
            else rev cur # split_ws_from True [] cs)
      else split_ws_from False (c # cur) cs)"

definition split_whitespace :: "string \<Rightarrow> string list" where
  "split_whitespace s = split_ws_from False [] s"

text \<open>\<open>xs.join(sep)\<close> on a list of strings.\<close>

fun join :: "string \<Rightarrow> string list \<Rightarrow> string" where
  "join sep [] = []"
| "join sep [s] = s"
| "join sep (s # t # rest) = s @ sep @ join sep (t # rest)"

definition dquote :: string where
  "dquote = [CHR 0x22]"

section \<open>Shared types (types/index.ts)\<close>

text \<open>
  \<open>landmarks\<close> is declared \<open>number[][]\<close>; the value may also be missing
  (\<open>None\<close>) or hold a null entry (an element \<open>None\<close>), which is what makes
  property reads throw inside the services.
\<close>

type_synonym js_landmarks = "real list option list option"

record SignLanguageData =
  landmarks :: js_landmarks
  confidence :: real
  timestamp :: int
  sessionId :: string
  recognizedGesture :: "string option"
  gestureDescription :: "string option"

record VoiceData =
  audioBuffer :: "nat option"
  duration :: real
  sampleRate :: real
  vd_timestamp :: int
  vd_sessionId :: string

datatype modality = Sign | Voice

record TranslationResult =
  originalType :: modality
  translatedText :: string
  tr_confidence :: real
  tr_timestamp :: int
  tr_sessionId :: string

section \<open>TranslationService.ts\<close>

record AnimationKeyframe =
  kf_timestamp :: real
  handPosition :: vec3
  fingerPositions :: "real list"
  kf_description :: string

record SignAnimation =
  sa_gesture :: string
  sa_duration :: real
  keyframes :: "AnimationKeyframe list"
  sa_description :: string

record TextToSignResult =
  signDescription :: string
  animations :: "SignAnimation list"
  ttsr_confidence :: real

record SignTranslationResult =
  str_text :: string
  str_confidence :: real
  str_gesture :: string

record DictionaryEntry =
  de_description :: string
  de_animations :: "SignAnimation list"
  category :: string

definition keyframe :: "real \<Rightarrow> vec3 \<Rightarrow> real list \<Rightarrow> string \<Rightarrow> AnimationKeyframe" where
  "keyframe t p f d =
     \<lparr>kf_timestamp = t, handPosition = p, fingerPositions = f, kf_description = d\<rparr>"

definition createWaveAnimation :: "SignAnimation list" where
  "createWaveAnimation =
     [\<lparr>sa_gesture = ''wave'', sa_duration = 2000,
       keyframes =
         [keyframe 0 (0, 0, 0) [1, 1, 1, 1, 1] ''Raise hand'',
          keyframe 500 (0.2, 0, 0) [1, 1, 1, 1, 1] ''Wave right'',
          keyframe 1000 (- 0.2, 0, 0) [1, 1, 1, 1, 1] ''Wave left'',
          keyframe 1500 (0, 0, 0) [1, 1, 1, 1, 1] ''Center'',
          keyframe 2000 (0, - 0.3, 0) [0, 0, 0, 0, 0] ''Lower hand''],
       sa_description = ''Wave hand side to side''\<rparr>]"

definition createThankYouAnimation :: "SignAnimation list" where
  "createThankYouAnimation =
     [\<lparr>sa_gesture = ''thank_you'', sa_duration = 1500,
       keyframes =
         [keyframe 0 (0, 0.2, - 0.1) [1, 1, 1, 1, 1] ''Touch chin'',
          keyframe 1000 (0, - 0.1, 0.2) [1, 1, 1, 1, 1] ''Move forward'',
          keyframe 1500 (0, - 0.2, 0.3) [1, 1, 1, 1, 1] ''Complete motion''],
       sa_description = ''Touch chin and move forward''\<rparr>]"

definition createYesAnimation :: "SignAnimation list" where
  "createYesAnimation =
     [\<lparr>sa_gesture = ''yes'', sa_duration = 1000,
       keyframes =
         [keyframe 0 (0, 0, 0) [0, 0, 0, 0, 0] ''Fist position'',
          keyframe 250 (0, 0.1, 0) [0, 0, 0, 0, 0] ''Nod up'',
          keyframe 500 (0, - 0.1, 0) [0, 0, 0, 0, 0] ''Nod down'',
          keyframe 750 (0, 0.05, 0) [0, 0, 0, 0, 0] ''Nod up again'',
          keyframe 1000 (0, 0, 0) [0, 0, 0, 0, 0] ''Return center''],
       sa_description = ''Nod fist up and down''\<rparr>]"

definition createGoodbyeAnimation :: "SignAnimation list" where
  "createGoodbyeAnimation = []"

definition createMorningAnimation :: "SignAnimation list" where
  "createMorningAnimation = []"

definition createPleaseAnimation :: "SignAnimation list" where
  "createPleaseAnimation = []"

definition createSorryAnimation :: "SignAnimation list" where
  "createSorryAnimation = []"

definition createNoAnimation :: "SignAnimation list" where
  "createNoAnimation = []"

definition createHelpAnimation :: "SignAnimation list" where
  "createHelpAnimation = []"

definition createStopAnimation :: "SignAnimation list" where
  "createStopAnimation = []"

definition dictEntry :: "string \<Rightarrow> SignAnimation list \<Rightarrow> string \<Rightarrow> DictionaryEntry" where
  "dictEntry d a c = \<lparr>de_description = d, de_animations = a, category = c\<rparr>"

text \<open>The two \<open>Map\<close>s of the service, in insertion order.\<close>

definition signLanguageDictionary :: "(string \<times> DictionaryEntry) list" where
  "signLanguageDictionary =
     [(''hello'', dictEntry ''Wave hand with open palm, fingers extended''
         createWaveAnimation ''greeting''),
      (''goodbye'', dictEntry ''Wave hand back and forth with palm facing forward''
         createGoodbyeAnimation ''greeting''),
      (''good_morning'', dictEntry ''Touch fingertips to forehead, then extend hand forward''
         createMorningAnimation ''greeting''),
      (''thank_you'', dictEntry ''Touch fingertips to chin, then move hand forward and down''
         createThankYouAnimation ''courtesy''),
      (''please'', dictEntry ''Place palm on chest and move in circular motion''
         createPleaseAnimation ''courtesy''),
      (''sorry'', dictEntry ''Make fist, place on chest, move in circular motion''
         createSorryAnimation ''courtesy''),
      (''yes'', dictEntry ''Make fist and nod up and down''
         createYesAnimation ''response''),
      (''no'', dictEntry ''Extend index and middle finger, shake side to side''
         createNoAnimation ''response''),
      (''help'', dictEntry ''Place one hand palm up, place other hand on top, lift both''
         createHelpAnimation ''action''),
      (''stop'', dictEntry ''Extend palm forward, fingers up, firm gesture''
         createStopAnimation ''action'')]"

definition wordToGestureMap :: "(string \<times> string) list" where
  "wordToGestureMap =
     [(''hello'', ''hello''), (''hi'', ''hello''), (''hey'', ''hello''),
      (''goodbye'', ''goodbye''), (''bye'', ''goodbye''),
      (''thanks'', ''thank_you''), (''thank you'', ''thank_you''),
      (''please'', ''please''), (''sorry'', ''sorry''),
      (''yes'', ''yes''), (''no'', ''no''), (''help'', ''help''), (''stop'', ''stop''),
      (''good morning'', ''good_morning''), (''morning'', ''good_morning'')]"

text \<open>\<open>m.get(k) || null\<close> on a map of strings: the empty string is falsy.\<close>

definition get_truthy :: "(string \<times> string) list \<Rightarrow> string \<Rightarrow> string option" where
  "get_truthy m k = (case map_of m k of None \<Rightarrow> None | Some v \<Rightarrow> if v = [] then None else Some v)"

fun findPartialGestureMatch_loop :: "(string \<times> string) list \<Rightarrow> string \<Rightarrow> string option" where
  "findPartialGestureMatch_loop [] word = None"
| "findPartialGestureMatch_loop ((key, g) # rest) word =
     (if str_includes key word \<or> str_includes word key
      then get_truthy wordToGestureMap key
      else findPartialGestureMatch_loop rest word)"

definition findPartialGestureMatch :: "string \<Rightarrow> string option" where
  "findPartialGestureMatch word = findPartialGestureMatch_loop wordToGestureMap word"

definition getLetterFingerPosition :: "char \<Rightarrow> real list" where
  "getLetterFingerPosition letter =
     (case map_of [(CHR ''a'', [0, 1, 1, 1, 1]), (CHR ''b'', [1, 1, 1, 1, 0]),
                   (CHR ''c'', [0.5, 0.5, 0.5, 0.5, 0.5])] (toLowerChar letter) of
        Some p \<Rightarrow> p
      | None \<Rightarrow> [1, 1, 1, 1, 1])"

definition createFingerspellingAnimation :: "string \<Rightarrow> SignAnimation" where
  "createFingerspellingAnimation word =
     \<lparr>sa_gesture = ''fingerspell'',
      sa_duration = real (length word) * 800,
      keyframes = map (\<lambda>(index, letter).
          keyframe (real index * 800) (0, 0, 0) (getLetterFingerPosition letter)
            (''Spell letter: '' @ [toUpperChar letter]))
        (enumerate 0 word),
      sa_description = ''Fingerspell the word: '' @ word\<rparr>"

text \<open>
  The body of the \<open>for (const word of words)\<close> loop of \<open>textToSign\<close>, with the
  three accumulators \<open>signAnimations\<close>, \<open>overallConfidence\<close>, \<open>matchCount\<close>.
  \<open>signLanguageDictionary.get(partialMatch)!.animations\<close> throws when the
  dictionary has no such key.
\<close>

fun textToSign_loop ::
  "string list \<Rightarrow> SignAnimation list \<times> real \<times> nat \<Rightarrow> js_error + SignAnimation list \<times> real \<times> nat"
where
  "textToSign_loop [] acc = Inr acc"
| "textToSign_loop (word # rest) (signAnimations, overallConfidence, matchCount) =
     (case (case map_of wordToGestureMap word of
              None \<Rightarrow> None
            | Some gesture \<Rightarrow>
                if gesture \<noteq> [] then map_of signLanguageDictionary gesture else None) of
        Some signData \<Rightarrow>
          textToSign_loop rest
            (signAnimations @ de_animations signData, overallConfidence + 0.9, matchCount + 1)
      | None \<Rightarrow>
          (case findPartialGestureMatch word of
             Some partialMatch \<Rightarrow>
               (case map_of signLanguageDictionary partialMatch of
                  None \<Rightarrow> Inl TypeError
                | Some signData \<Rightarrow>
                    textToSign_loop rest
                      (signAnimations @ de_animations signData, overallConfidence + 0.6,
                       matchCount + 1))
           | None \<Rightarrow>
               textToSign_loop rest
                 (signAnimations @ [createFingerspellingAnimation word],
                  overallConfidence + 0.4, matchCount + 1)))"

definition isKnownWord :: "string \<Rightarrow> bool" where
  "isKnownWord word =
     (map_of wordToGestureMap word \<noteq> None \<or> findPartialGestureMatch word \<noteq> None)"

definition describeWord :: "string \<Rightarrow> string" where
  "describeWord word =
     (case (case get_truthy wordToGestureMap word of
              Some g \<Rightarrow> Some g
            | None \<Rightarrow> findPartialGestureMatch word) of
        None \<Rightarrow> ''Fingerspell '' @ dquote @ word @ dquote
      | Some gesture \<Rightarrow>
          (case map_of signLanguageDictionary gesture of
             Some e \<Rightarrow> de_description e
           | None \<Rightarrow> ''Fingerspell '' @ dquote @ word @ dquote))"

definition generateSignDescription :: "string \<Rightarrow> string list \<Rightarrow> string" where
  "generateSignDescription originalText words =
     (let knownGestures = filter isKnownWord words in
      if length knownGestures = 0
      then ''Fingerspell: '' @ dquote @ originalText @ dquote
      else join '', then '' (map describeWord knownGestures))"

text \<open>\<open>textToSign\<close>: \<open>None\<close> is the \<open>null\<close> result, also returned by the
  \<open>catch\<close> block.\<close>

definition textToSign :: "string \<Rightarrow> TextToSignResult option" where
  "textToSign text =
     (let words = split_whitespace (toLowerCase text) in
      case textToSign_loop words ([], 0, 0) of
        Inl e \<Rightarrow> None
      | Inr (signAnimations, overallConfidence, matchCount) \<Rightarrow>
          if length signAnimations = 0 then None
          else
            let finalConfidence =
                  (if matchCount > 0 then overallConfidence / real matchCount else 0)
            in Some \<lparr>signDescription = generateSignDescription text words,
                      animations = signAnimations,
                      ttsr_confidence = min 1 finalConfidence\<rparr>)"

text \<open>
  \<open>recognizeGestureFromLandmarks\<close>: the heuristic classifier over the wrist
  and the five fingertips of the first hand. Reading \<open>landmarks.length\<close> of a
  missing value, or \<open>landmarks[0].length\<close> of a null entry, throws.
\<close>

definition recognizeGestureFromLandmarks :: "js_landmarks \<Rightarrow> js_error + (string \<times> real) option" where
  "recognizeGestureFromLandmarks lms =
     (case lms of
        None \<Rightarrow> Inl TypeError
      | Some [] \<Rightarrow> Inr None
      | Some (None # _) \<Rightarrow> Inl TypeError
      | Some (Some handPoints # _) \<Rightarrow>
          if length handPoints < 21 * 3 then Inr None
          else
            let thumbTip = (handPoints ! (4 * 3), handPoints ! (4 * 3 + 1));
                indexTip = (handPoints ! (8 * 3), handPoints ! (8 * 3 + 1));
                middleTip = (handPoints ! (12 * 3), handPoints ! (12 * 3 + 1));
                ringTip = (handPoints ! (16 * 3), handPoints ! (16 * 3 + 1));
                pinkyTip = (handPoints ! (20 * 3), handPoints ! (20 * 3 + 1));
                wrist = (handPoints ! 0, handPoints ! 1);
                allFingersUp =
                  list_all (\<lambda>tip. snd tip < snd wrist)
                    [thumbTip, indexTip, middleTip, ringTip, pinkyTip];
                thumbsUp =
                  (snd thumbTip < snd wrist \<and>
                   list_all (\<lambda>tip. snd tip > snd wrist) [indexTip, middleTip, ringTip, pinkyTip]);
                pointingUp =
                  (snd indexTip < snd wrist \<and>
                   list_all (\<lambda>tip. snd tip > snd wrist) [thumbTip, middleTip, ringTip, pinkyTip]);
                okSign =
                  (\<bar>fst thumbTip - fst indexTip\<bar> < 0.05 \<and> \<bar>snd thumbTip - snd indexTip\<bar> < 0.05)
            in if allFingersUp then Inr (Some (''hello'', 0.8))
               else if thumbsUp then Inr (Some (''yes'', 0.85))
               else if pointingUp then Inr (Some (''help'', 0.7))
               else if okSign then Inr (Some (''thank_you'', 0.75))
               else Inr (Some (''unknown'', 0.3)))"

definition sequenceTimeoutMs :: int where
  "sequenceTimeoutMs = 3000"

definition gestureToText :: "(string \<times> string) list" where
  "gestureToText =
     [(''hello'', ''Hello''), (''goodbye'', ''Goodbye''), (''thank_you'', ''Thank you''),
      (''please'', ''Please''), (''yes'', ''Yes''), (''no'', ''No''), (''help'', ''Help''),
      (''stop'', ''Stop''), (''good_morning'', ''Good morning'')]"

text \<open>The buffer holds (gesture, timestamp) pairs, oldest first.\<close>

definition gestureSequenceToText :: "(string \<times> int) list \<Rightarrow> string option" where
  "gestureSequenceToText buf =
     (if length buf = 0 then None
      else get_truthy gestureToText (fst (last buf)))"

definition cleanGestureBuffer :: "int \<Rightarrow> (string \<times> int) list \<Rightarrow> (string \<times> int) list" where
  "cleanGestureBuffer now buf = filter (\<lambda>g. now - snd g < sequenceTimeoutMs) buf"

text \<open>
  \<open>signToText\<close>: \<open>nowPush\<close> and \<open>nowClean\<close> are the two readings of the
  clock, at the push and inside \<open>cleanGestureBuffer\<close>. The \<open>catch\<close> block
  returns \<open>null\<close>, here \<open>None\<close>; the buffer is returned updated.
\<close>

definition signToText ::
  "int \<Rightarrow> int \<Rightarrow> SignLanguageData \<Rightarrow> (string \<times> int) list
     \<Rightarrow> SignTranslationResult option \<times> (string \<times> int) list"
where
  "signToText nowPush nowClean signData gestureSequenceBuffer =
     (case recognizeGestureFromLandmarks (landmarks signData) of
        Inl e \<Rightarrow> (None, gestureSequenceBuffer)
      | Inr None \<Rightarrow> (None, gestureSequenceBuffer)
      | Inr (Some (gesture, gestureConfidence)) \<Rightarrow>
          let pushed = gestureSequenceBuffer @ [(gesture, nowPush)];
              cleaned = cleanGestureBuffer nowClean pushed
          in (case gestureSequenceToText cleaned of
                Some phrase \<Rightarrow>
                  (Some \<lparr>str_text = phrase,
                         str_confidence = min gestureConfidence (confidence signData),
                         str_gesture = gesture\<rparr>, cleaned)
              | None \<Rightarrow> (None, cleaned)))"

section \<open>SimpleRealisticSignLanguageService: the gesture vocabulary\<close>

text \<open>The \<open>aslGestures\<close> map: name, description, nominal confidence.\<close>

definition aslGestures :: "(string \<times> string \<times> real) list" where
  "aslGestures =
     [(''hello'', ''Open palm, fingers extended, gentle wave motion'', 0.9),
      (''goodbye'', ''Palm facing out, fingers closing and opening'', 0.85),
      (''thank_you'', ''Fingertips touch lips, then move forward'', 0.8),
      (''please'', ''Open palm on chest, circular motion'', 0.75),
      (''yes'', ''Fist nodding up and down'', 0.85),
      (''no'', ''Index and middle finger extended, side to side motion'', 0.8),
      (''help'', ''One hand supports the other, both lift up'', 0.7),
      (''stop'', ''Palm forward, fingers up, firm gesture'', 0.9),
      (''water'', ''W handshape near mouth'', 0.8),
      (''food'', ''Fingertips to mouth'', 0.8),
      (''sorry'', ''Fist on chest, circular motion'', 0.8),
      (''i_love_you'', ''Pinky, index, and thumb extended'', 0.9),
      (''one'', ''Index finger up'', 0.95),
      (''two'', ''Index and middle finger up'', 0.95),
      (''three'', ''Thumb, index, middle finger up'', 0.9),
      (''four'', ''Four fingers up, thumb tucked'', 0.9),
      (''five'', ''All fingers extended'', 0.95),
      (''a'', ''Closed fist with thumb beside'', 0.8),
      (''b'', ''Flat hand, fingers up'', 0.85),
      (''c'', ''Curved hand forming C shape'', 0.8)]"

definition getGestureDescription :: "string \<Rightarrow> string" where
  "getGestureDescription gesture =
     (case map_of aslGestures gesture of
        Some gestureData \<Rightarrow> fst gestureData
      | None \<Rightarrow> ''Unknown gesture'')"

section \<open>RealisticVoiceService\<close>

text \<open>
  \<open>validateAudioFormat\<close>: the payload may be missing (\<open>None\<close>), and so may its
  buffer; a present buffer is represented by its \<open>byteLength\<close>.
\<close>

definition validSampleRates :: "real list" where
  "validSampleRates = [16000, 22050, 44100, 48000]"

definition validateAudioFormat :: "VoiceData option \<Rightarrow> bool" where
  "validateAudioFormat audioData =
     (case audioData of
        None \<Rightarrow> False
      | Some d \<Rightarrow>
          (case audioBuffer d of
             None \<Rightarrow> False
           | Some byteLength \<Rightarrow>
               (let minDuration = 0.1; maxDuration = 30 in
                duration d \<ge> minDuration \<and> duration d \<le> maxDuration \<and>
                sampleRate d \<in> set validSampleRates \<and> byteLength > 0)))"

definition signToVoiceTranslations :: "(string \<times> string) list" where
  "signToVoiceTranslations =
     [(''hello'', ''Hello there! Nice to meet you.''),
      (''goodbye'', ''Goodbye! Take care.''),
      (''thank_you'', ''Thank you so much!''),
      (''please'', ''Please''),
      (''yes'', ''Yes, absolutely.''),
      (''no'', ''No, not really.''),
      (''help'', ''Can you help me, please?''),
      (''stop'', ''Stop, please!''),
      (''sorry'', ''I am sorry.''),
      (''excuse_me'', ''Excuse me.''),
      (''how_are_you'', ''How are you doing today?''),
      (''fine'', ''I am doing fine, thank you.''),
      (''good_morning'', ''Good morning!''),
      (''good_afternoon'', ''Good afternoon!''),
      (''good_evening'', ''Good evening!''),
      (''good_night'', ''Good night, sleep well.''),
      (''water'', ''I would like some water, please.''),
      (''food'', ''I am hungry. Can I have some food?''),
      (''bathroom'', ''Where is the bathroom?''),
      (''doctor'', ''I need to see a doctor.''),
      (''emergency'', ''This is an emergency! Please help!''),
      (''pain'', ''I am in pain.''),
      (''tired'', ''I am feeling tired.''),
      (''happy'', ''I am very happy!''),
      (''sad'', ''I am feeling sad.''),
      (''confused'', ''I am confused. Can you explain?''),
      (''understand'', ''I understand now.''),
      (''dont_understand'', ''I don'' @ [CHR 0x27] @ ''t understand. Can you repeat?''),
      (''repeat'', ''Can you please repeat that?''),
      (''slow_down'', ''Please speak more slowly.''),
      (''family'', ''This is my family.''),
      (''friend'', ''This is my friend.''),
      (''work'', ''I need to go to work.''),
      (''home'', ''I want to go home.''),
      (''school'', ''I go to school here.''),
      (''money'', ''How much does this cost?''),
      (''time'', ''What time is it?''),
      (''today'', ''Today is a good day.''),
      (''tomorrow'', ''See you tomorrow.''),
      (''yesterday'', ''Yesterday was interesting.''),
      (''zero'', ''Zero''), (''one'', ''One''), (''two'', ''Two''), (''three'', ''Three''),
      (''four'', ''Four''), (''five'', ''Five''), (''six'', ''Six''), (''seven'', ''Seven''),
      (''eight'', ''Eight''), (''nine'', ''Nine''), (''ten'', ''Ten''),
      (''a'', ''The letter A''), (''b'', ''The letter B''), (''c'', ''The letter C''),
      (''i_love_you'', ''I love you too!'')]"

text \<open>\<open>n.toString()\<close> for a non-negative integer and for an integer.\<close>

fun nat_toString :: "nat \<Rightarrow> string" where
  "nat_toString n =
     (if n < 10 then [char_of (48 + n)]
      else nat_toString (n div 10) @ [char_of (48 + n mod 10)])"

definition int_toString :: "int \<Rightarrow> string" where
  "int_toString i = (if i < 0 then CHR ''-'' # nat_toString (nat (- i)) else nat_toString (nat i))"

text \<open>\<open>s.trim()\<close>.\<close>

definition trim :: "string \<Rightarrow> string" where
  "trim s = rev (dropWhile isWhitespace (rev (dropWhile isWhitespace s)))"

text \<open>
  \<open>generateFallbackVoiceText\<close>: underscores become blanks, a blank is put before
  every capital letter, then lower case and trim.
\<close>

definition isUpperChar :: "char \<Rightarrow> bool" where
  "isUpperChar c = (65 \<le> (of_char c :: nat) \<and> (of_char c :: nat) \<le> 90)"

definition generateFallbackVoiceText :: "string \<Rightarrow> string" where
  "generateFallbackVoiceText gesture =
     (if gesture = ''unknown'' \<or> gesture = []
      then ''I detected a gesture, but I'' @ [CHR 0x27] @ ''m not sure what it means.''
      else
        let underscoresReplaced = map (\<lambda>c. if c = CHR ''_'' then CHR '' '' else c) gesture;
            capitalsSpaced =
              concat (map (\<lambda>c. if isUpperChar c then [CHR '' '', c] else [c]) underscoresReplaced);
            readable = trim (toLowerCase capitalsSpaced)
        in ''I see the gesture: '' @ readable)"

text \<open>
  The mutable fields of the voice service, and what the operating system
  answers to the commands it runs: whether the \<open>say\<close> command succeeds and
  whether the file it should have written is accessible afterwards.
\<close>

record VoiceServiceState =
  isProcessing :: bool
  tempFileCounter :: nat

record TTSOptions =
  opt_voice :: "string option"
  opt_speed :: "real option"

record Platform =
  sayCommandSucceeds :: bool
  outputFileAccessible :: bool
  audioOutputDir :: string

text \<open>
  \<open>textToSpeech\<close>, run to completion. \<open>waitForProcessing\<close> only lets time
  pass; \<open>playAudioFile\<close> and \<open>playTextAsSound\<close> catch every failure of their
  own. A failure of the \<open>say\<close> command or of the access check is caught by
  the inner \<open>catch\<close>, which answers \<open>fallback_tts_used\<close>. The result type keeps
  the rejected case of the promise although no modelled step reaches the outer
  \<open>catch\<close>.
\<close>

definition textToSpeech ::
  "Platform \<Rightarrow> int \<Rightarrow> string \<Rightarrow> TTSOptions \<Rightarrow> VoiceServiceState
     \<Rightarrow> (js_error + string) \<times> VoiceServiceState"
where
  "textToSpeech os now speechText options vs =
     (let counter = (tempFileCounter vs + 1) mod 1000;
          filename = ''voice_'' @ int_toString now @ ''_'' @ nat_toString counter @ ''.aiff'';
          outputPath = audioOutputDir os @ ''/'' @ filename
      in if sayCommandSucceeds os \<and> outputFileAccessible os
         then (Inr outputPath, vs\<lparr>isProcessing := False, tempFileCounter := counter\<rparr>)
         else (Inr ''fallback_tts_used'', vs\<lparr>isProcessing := False, tempFileCounter := counter\<rparr>))"

definition noOptions :: TTSOptions where
  "noOptions = \<lparr>opt_voice = None, opt_speed = None\<rparr>"

text \<open>\<open>generateVoiceFromGesture\<close>: rethrows what \<open>textToSpeech\<close> throws.\<close>

definition generateVoiceFromGesture ::
  "Platform \<Rightarrow> int \<Rightarrow> string \<Rightarrow> VoiceServiceState \<Rightarrow> (js_error + string) \<times> VoiceServiceState"
where
  "generateVoiceFromGesture os now gesture vs =
     (let voiceText = (case get_truthy signToVoiceTranslations gesture of
                         Some t \<Rightarrow> t
                       | None \<Rightarrow> generateFallbackVoiceText gesture)
      in case textToSpeech os now voiceText noOptions vs of
           (Inl e, vs') \<Rightarrow> (Inl e, vs')
         | (Inr audioPath, vs') \<Rightarrow> (Inr voiceText, vs'))"

section \<open>RealisticWebSocketHandler: keyword extraction\<close>

text \<open>The entries of the \<open>gestureKeywords\<close> object literal, in declaration
  order, which is the order in which \<open>Object.entries\<close> enumerates them.\<close>

definition gestureKeywords :: "(string \<times> string) list" where
  "gestureKeywords =
     [(''hello'', ''hello''), (''hi'', ''hello''), (''hey'', ''hello''),
      (''goodbye'', ''goodbye''), (''bye'', ''goodbye''), (''see you'', ''goodbye''),
      (''good morning'', ''good_morning''), (''good afternoon'', ''good_afternoon''),
      (''good evening'', ''good_evening''), (''good night'', ''good_night''),
      (''thank you'', ''thank_you''), (''thanks'', ''thank_you''), (''thank'', ''thank_you''),
      (''please'', ''please''), (''sorry'', ''sorry''), (''excuse me'', ''excuse_me''),
      (''yes'', ''yes''), (''yeah'', ''yes''), (''okay'', ''yes''), (''ok'', ''yes''),
      (''no'', ''no''), (''nope'', ''no''), (''not'', ''no''),
      (''help'', ''help''), (''stop'', ''stop''), (''wait'', ''stop''),
      (''water'', ''water''), (''drink'', ''water''), (''thirsty'', ''water''),
      (''food'', ''food''), (''eat'', ''food''), (''hungry'', ''food''),
      (''bathroom'', ''bathroom''), (''restroom'', ''bathroom''), (''toilet'', ''bathroom''),
      (''happy'', ''happy''), (''sad'', ''sad''), (''tired'', ''tired''),
      (''pain'', ''pain''), (''hurt'', ''pain''),
      (''love you'', ''i_love_you''), (''love'', ''i_love_you''),
      (''family'', ''family''), (''friend'', ''friend''),
      (''home'', ''home''), (''work'', ''work''), (''school'', ''school''),
      (''time'', ''time''), (''today'', ''today''), (''tomorrow'', ''tomorrow''),
      (''yesterday'', ''yesterday''),
      (''understand'', ''understand''), (''confused'', ''confused''), (''repeat'', ''repeat''),
      (''dont understand'', ''dont_understand''),
      (''don'' @ [CHR 0x27] @ ''t understand'', ''dont_understand''),
      (''slow down'', ''slow_down''), (''slower'', ''slow_down'')]"

text \<open>The loop over the keyword entries: the first keyword found in the text wins.\<close>

fun keywordScan :: "(string \<times> string) list \<Rightarrow> string \<Rightarrow> string option" where
  "keywordScan [] lowerText = None"
| "keywordScan ((keyword, gesture) # rest) lowerText =
     (if str_includes lowerText keyword then Some gesture else keywordScan rest lowerText)"

definition numbers :: "string list" where
  "numbers = [''zero'', ''one'', ''two'', ''three'', ''four'', ''five'', ''six'', ''seven'',
              ''eight'', ''nine'', ''ten'']"

text \<open>The loop \<open>for (let i = 0; i < numbers.length; i++)\<close>, started at index \<open>i\<close>
  with the remaining number words.\<close>

fun numberScan :: "nat \<Rightarrow> string list \<Rightarrow> string \<Rightarrow> string option" where
  "numberScan i [] lowerText = None"
| "numberScan i (word # rest) lowerText =
     (if str_includes lowerText word \<or> str_includes lowerText (nat_toString i)
      then Some word
      else numberScan (i + 1) rest lowerText)"

fun letterScan :: "string list \<Rightarrow> string \<Rightarrow> string option" where
  "letterScan [] lowerText = None"
| "letterScan (letter # rest) lowerText =
     (if str_includes lowerText (''letter '' @ letter) \<or> lowerText = letter
      then Some letter
      else letterScan rest lowerText)"

definition extractGestureFromText :: "string \<Rightarrow> string option" where
  "extractGestureFromText text =
     (let lowerText = toLowerCase text in
      case keywordScan gestureKeywords lowerText of
        Some gesture \<Rightarrow> Some gesture
      | None \<Rightarrow>
          (case numberScan 0 numbers lowerText of
             Some number \<Rightarrow> Some number
           | None \<Rightarrow> letterScan [''a'', ''b'', ''c'', ''d'', ''e''] lowerText))"

text \<open>The handler's own \<open>generateSignDescription\<close>: \<open>text.split(' ')\<close> cuts at
  every single blank.\<close>

fun split_blank_from :: "string \<Rightarrow> string \<Rightarrow> string list" where
  "split_blank_from cur [] = [rev cur]"
| "split_blank_from cur (c # cs) =
     (if c = CHR '' '' then rev cur # split_blank_from [] cs else split_blank_from (c # cur) cs)"

definition handlerSignDescription :: "string \<Rightarrow> string" where
  "handlerSignDescription text =
     (let words = split_blank_from [] text;
          shortText = join '' '' (take 6 words)
      in if length words \<le> 3
         then ''Spell out: '' @ dquote @ shortText @ dquote @ '' using fingerspelling''
         else ''Sign language representation: '' @ dquote @ shortText @ dquote
                @ '' - Use combination of gestures and fingerspelling'')"

section \<open>Avatar3DService\<close>

record AvatarBone =
  bone_name :: string
  position :: vec3
  rotation :: vec3

record AvatarPose =
  pose_timestamp :: int
  bones :: "AvatarBone list"
  facialExpression :: "string option"
  pose_duration :: real

definition bone :: "string \<Rightarrow> vec3 \<Rightarrow> vec3 \<Rightarrow> AvatarBone" where
  "bone n p r = \<lparr>bone_name = n, position = p, rotation = r\<rparr>"

definition pose :: "int \<Rightarrow> AvatarBone list \<Rightarrow> string \<Rightarrow> real \<Rightarrow> AvatarPose" where
  "pose t bs e d = \<lparr>pose_timestamp = t, bones = bs, facialExpression = Some e, pose_duration = d\<rparr>"

text \<open>The values of \<open>avatarSkeleton\<close> in declaration order: bone name and
  default position.\<close>

definition avatarSkeleton :: "(string \<times> vec3) list" where
  "avatarSkeleton =
     [(''Head'', (0, 1.6, 0)), (''Neck'', (0, 1.4, 0)),
      (''Chest'', (0, 1.2, 0)), (''Spine'', (0, 1.0, 0)),
      (''LeftShoulder'', (- 0.2, 1.3, 0)), (''LeftUpperArm'', (- 0.3, 1.1, 0)),
      (''LeftForearm'', (- 0.4, 0.9, 0)), (''LeftHand'', (- 0.5, 0.8, 0)),
      (''RightShoulder'', (0.2, 1.3, 0)), (''RightUpperArm'', (0.3, 1.1, 0)),
      (''RightForearm'', (0.4, 0.9, 0)), (''RightHand'', (0.5, 0.8, 0)),
      (''LeftThumb'', (- 0.48, 0.82, 0.02)), (''LeftIndex'', (- 0.52, 0.85, 0)),
      (''LeftMiddle'', (- 0.53, 0.85, 0)), (''LeftRing'', (- 0.52, 0.84, 0)),
      (''LeftPinky'', (- 0.51, 0.82, 0)),
      (''RightThumb'', (0.48, 0.82, 0.02)), (''RightIndex'', (0.52, 0.85, 0)),
      (''RightMiddle'', (0.53, 0.85, 0)), (''RightRing'', (0.52, 0.84, 0)),
      (''RightPinky'', (0.51, 0.82, 0))]"

definition createDefaultPose :: "int \<Rightarrow> AvatarPose" where
  "createDefaultPose now =
     \<lparr>pose_timestamp = now,
      bones = map (\<lambda>(n, defaultPosition). bone n defaultPosition (0, 0, 0)) avatarSkeleton,
      facialExpression = Some ''neutral'',
      pose_duration = 1000\<rparr>"

text \<open>The animation builders; \<open>t0\<close> is the clock reading when the service
  object is constructed. A builder whose name the translation service already
  uses for its own table ends in \<open>Poses\<close> here.\<close>

definition createHelloAnimation :: "int \<Rightarrow> AvatarPose list" where
  "createHelloAnimation t0 =
     [pose t0
        [bone ''RightUpperArm'' (0.3, 1.3, 0) (0, 0, - 0.5),
         bone ''RightForearm'' (0.2, 1.4, 0) (0, 0, - 0.3),
         bone ''RightHand'' (0.1, 1.5, 0) (0, 0, 0)] ''happy'' 500,
      pose (t0 + 500) [bone ''RightHand'' (0.15, 1.5, 0) (0, 0.2, 0)] ''happy'' 300,
      pose (t0 + 800) [bone ''RightHand'' (0.05, 1.5, 0) (0, - 0.2, 0)] ''happy'' 300]"

definition createGoodbyePoses :: "int \<Rightarrow> AvatarPose list" where
  "createGoodbyePoses t0 =
     createHelloAnimation t0 @
     [pose (t0 + 1100)
        [bone ''RightUpperArm'' (0.3, 1.1, 0) (0, 0, 0),
         bone ''RightForearm'' (0.4, 0.9, 0) (0, 0, 0),
         bone ''RightHand'' (0.5, 0.8, 0) (0, 0, 0)] ''neutral'' 800]"

definition createThankYouPoses :: "int \<Rightarrow> AvatarPose list" where
  "createThankYouPoses t0 =
     [pose t0
        [bone ''RightHand'' (0.1, 1.4, 0.1) (0, 0, 0),
         bone ''Head'' (0, 1.6, 0) (0.1, 0, 0)] ''happy'' 1000]"

definition createPleasePoses :: "int \<Rightarrow> AvatarPose list" where
  "createPleasePoses t0 =
     [pose t0 [bone ''RightHand'' (0.1, 1.2, 0.1) (0, 0, 0.2)] ''questioning'' 1200]"

definition createYesPoses :: "int \<Rightarrow> AvatarPose list" where
  "createYesPoses t0 =
     [pose t0 [bone ''Head'' (0, 1.6, 0) (0.3, 0, 0)] ''neutral'' 600,
      pose (t0 + 600) [bone ''Head'' (0, 1.6, 0) (- 0.1, 0, 0)] ''neutral'' 400]"

definition createNoPoses :: "int \<Rightarrow> AvatarPose list" where
  "createNoPoses t0 =
     [pose t0 [bone ''Head'' (0, 1.6, 0) (0, 0.3, 0)] ''serious'' 400,
      pose (t0 + 400) [bone ''Head'' (0, 1.6, 0) (0, - 0.3, 0)] ''serious'' 400]"

definition createHelpPoses :: "int \<Rightarrow> AvatarPose list" where
  "createHelpPoses t0 =
     [pose t0
        [bone ''LeftHand'' (- 0.3, 1.1, 0) (0, 0, 0),
         bone ''RightHand'' (- 0.2, 1.2, 0) (0, 0, 0.3)] ''concerned'' 1200]"

definition createStopPoses :: "int \<Rightarrow> AvatarPose list" where
  "createStopPoses t0 =
     [pose t0
        [bone ''RightUpperArm'' (0.2, 1.3, 0) (0, 0, - 0.8),
         bone ''RightForearm'' (0.1, 1.5, 0) (0, 0, 0),
         bone ''RightHand'' (0, 1.6, 0) (0, 0, 0)] ''serious'' 1500]"

definition createWaterAnimation :: "int \<Rightarrow> AvatarPose list" where
  "createWaterAnimation t0 =
     [pose t0 [bone ''RightHand'' (0.2, 1.3, 0) (0, 0, 0.5)] ''neutral'' 1000]"

definition createFoodAnimation :: "int \<Rightarrow> AvatarPose list" where
  "createFoodAnimation t0 =
     [pose t0 [bone ''RightHand'' (0.1, 1.4, 0.1) (0, 0, 0.3)] ''questioning'' 800]"

definition createBathroomAnimation :: "int \<Rightarrow> AvatarPose list" where
  "createBathroomAnimation t0 =
     [pose t0 [bone ''RightIndex'' (0.3, 1.2, 0) (0, 0, 0.2)] ''questioning'' 1000]"

definition createSorryPoses :: "int \<Rightarrow> AvatarPose list" where
  "createSorryPoses t0 =
     [pose t0
        [bone ''RightHand'' (0.1, 1.2, 0.1) (0, 0, 0.4),
         bone ''Head'' (0, 1.6, 0) (0.2, 0, 0)] ''concerned'' 1200]"

definition createILoveYouAnimation :: "int \<Rightarrow> AvatarPose list" where
  "createILoveYouAnimation t0 =
     [pose t0
        [bone ''RightHand'' (0.3, 1.3, 0) (0, 0, 0),
         bone ''RightThumb'' (0.32, 1.32, 0.02) (0, 0.5, 0),
         bone ''RightIndex'' (0.35, 1.35, 0) (0, 0, 0.3),
         bone ''RightPinky'' (0.28, 1.32, 0) (0, 0, - 0.3)] ''happy'' 2000]"

definition getExtendedFingersForNumber :: "nat \<Rightarrow> bool list" where
  "getExtendedFingersForNumber n =
     (case map_of
        [(0, [False, False, False, False, False]),
         (1, [False, True, False, False, False]),
         (2, [False, True, True, False, False]),
         (3, [True, True, True, False, False]),
         (4, [False, True, True, True, True]),
         (5, [True, True, True, True, True])] n of
        Some fingers \<Rightarrow> fingers
      | None \<Rightarrow> [False, False, False, False, False])"

definition fingerNames :: "string list" where
  "fingerNames = [''RightThumb'', ''RightIndex'', ''RightMiddle'', ''RightRing'', ''RightPinky'']"

definition createNumberAnimation :: "int \<Rightarrow> nat \<Rightarrow> AvatarPose list" where
  "createNumberAnimation t0 n =
     (let basePosY = 1.3 in
      [pose t0
         (map (\<lambda>(index, extended).
                bone (fingerNames ! index)
                  (0.3 + (real index - 2) * 0.02,
                   (if extended then basePosY + 0.08 else basePosY - 0.02), 0)
                  (if extended then (0, 0, 0.2) else (0.8, 0, 0)))
              (enumerate 0 (getExtendedFingersForNumber n)))
         ''neutral'' 1500])"

definition createLetterAnimation :: "int \<Rightarrow> string \<Rightarrow> AvatarPose list" where
  "createLetterAnimation t0 letter =
     [pose t0 [bone ''RightHand'' (0.3, 1.3, 0) (0, 0, 0)] ''neutral'' 1000]"

definition gestureAnimations :: "int \<Rightarrow> (string \<times> AvatarPose list) list" where
  "gestureAnimations t0 =
     [(''hello'', createHelloAnimation t0),
      (''goodbye'', createGoodbyePoses t0),
      (''thank_you'', createThankYouPoses t0),
      (''please'', createPleasePoses t0),
      (''yes'', createYesPoses t0),
      (''no'', createNoPoses t0),
      (''help'', createHelpPoses t0),
      (''stop'', createStopPoses t0),
      (''water'', createWaterAnimation t0),
      (''food'', createFoodAnimation t0),
      (''bathroom'', createBathroomAnimation t0),
      (''sorry'', createSorryPoses t0),
      (''i_love_you'', createILoveYouAnimation t0),
      (''one'', createNumberAnimation t0 1),
      (''two'', createNumberAnimation t0 2),
      (''three'', createNumberAnimation t0 3),
      (''four'', createNumberAnimation t0 4),
      (''five'', createNumberAnimation t0 5),
      (''a'', createLetterAnimation t0 ''A''),
      (''b'', createLetterAnimation t0 ''B''),
      (''c'', createLetterAnimation t0 ''C'')]"

text \<open>
  What the avatar service gets from outside: the clock reading at construction
  and the library function \<open>Math.atan2\<close>.
\<close>

record AvatarRuntime =
  constructedAt :: int
  atan2 :: "real \<Rightarrow> real \<Rightarrow> real"

definition calculateFingerRotation :: "AvatarRuntime \<Rightarrow> real list \<Rightarrow> nat \<Rightarrow> nat \<Rightarrow> vec3" where
  "calculateFingerRotation rt lm startIdx endIdx =
     (let baseX = lm ! (startIdx * 3);
          baseY = lm ! (startIdx * 3 + 1);
          tipX = lm ! (endIdx * 3);
          tipY = lm ! (endIdx * 3 + 1);
          dx = tipX - baseX;
          dy = tipY - baseY;
          angle = atan2 rt dy dx
      in (sin angle * 0.5, 0, cos angle * 0.5))"

text \<open>\<open>v || 0\<close> on a number.\<close>

definition or_zero :: "real \<Rightarrow> real" where
  "or_zero v = (if v = 0 then 0 else v)"

text \<open>
  \<open>generateGenericPoseFromLandmarks\<close>: a missing or empty \<open>landmarks\<close> value
  and a first hand of fewer than 63 numbers give the default pose; reading
  \<open>landmarks[0].length\<close> of a null entry throws. Past the guard every index
  read is below 63, hence in range.
\<close>

definition generateGenericPoseFromLandmarks ::
  "AvatarRuntime \<Rightarrow> int \<Rightarrow> js_landmarks \<Rightarrow> js_error + AvatarPose"
where
  "generateGenericPoseFromLandmarks rt now lms =
     (case lms of
        None \<Rightarrow> Inr (createDefaultPose now)
      | Some [] \<Rightarrow> Inr (createDefaultPose now)
      | Some (None # _) \<Rightarrow> Inl TypeError
      | Some (Some handLandmarks # _) \<Rightarrow>
          if length handLandmarks < 63 then Inr (createDefaultPose now)
          else
            let wristX = handLandmarks ! 0;
                wristY = handLandmarks ! 1;
                wristZ = or_zero (handLandmarks ! 2)
            in Inr \<lparr>pose_timestamp = now,
                    bones =
                      [bone ''RightHand'' (wristX, wristY, wristZ) (0, 0, 0),
                       bone ''RightThumb''
                         (handLandmarks ! 12, handLandmarks ! 13, or_zero (handLandmarks ! 14))
                         (calculateFingerRotation rt handLandmarks 1 4),
                       bone ''RightIndex''
                         (handLandmarks ! 24, handLandmarks ! 25, or_zero (handLandmarks ! 26))
                         (calculateFingerRotation rt handLandmarks 5 8),
                       bone ''RightMiddle''
                         (handLandmarks ! 36, handLandmarks ! 37, or_zero (handLandmarks ! 38))
                         (calculateFingerRotation rt handLandmarks 9 12),
                       bone ''RightRing''
                         (handLandmarks ! 48, handLandmarks ! 49, or_zero (handLandmarks ! 50))
                         (calculateFingerRotation rt handLandmarks 13 16),
                       bone ''RightPinky''
                         (handLandmarks ! 60, handLandmarks ! 61, or_zero (handLandmarks ! 62))
                         (calculateFingerRotation rt handLandmarks 17 20)],
                    facialExpression = Some ''neutral'',
                    pose_duration = 1000\<rparr>)"

text \<open>The \<open>try\<close> block of \<open>generateAvatarPose\<close>.\<close>

definition generateAvatarPose_try ::
  "AvatarRuntime \<Rightarrow> int \<Rightarrow> SignLanguageData \<Rightarrow> js_error + AvatarPose"
where
  "generateAvatarPose_try rt now signData =
     (case recognizedGesture signData of
        None \<Rightarrow> generateGenericPoseFromLandmarks rt now (landmarks signData)
      | Some g \<Rightarrow>
          if g = [] \<or> g = ''unknown''
          then generateGenericPoseFromLandmarks rt now (landmarks signData)
          else
            (case map_of (gestureAnimations (constructedAt rt)) g of
               None \<Rightarrow> generateGenericPoseFromLandmarks rt now (landmarks signData)
             | Some anims \<Rightarrow>
                 if length anims > 0 then Inr (anims ! (length anims div 2))
                 else generateGenericPoseFromLandmarks rt now (landmarks signData)))"

text \<open>\<open>generateAvatarPose\<close>: the \<open>catch\<close> block answers the default pose. The
  result is the settled promise: \<open>Inr\<close> resolved, \<open>Inl\<close> rejected.\<close>

definition generateAvatarPose ::
  "AvatarRuntime \<Rightarrow> int \<Rightarrow> SignLanguageData \<Rightarrow> js_error + AvatarPose"
where
  "generateAvatarPose rt now signData =
     (case generateAvatarPose_try rt now signData of
        Inr p \<Rightarrow> Inr p
      | Inl e \<Rightarrow> Inr (createDefaultPose now))"

text \<open>The fields of the avatar service that \<open>playGestureSequence\<close> writes.\<close>

record AvatarServiceState =
  currentPose :: "AvatarPose option"
  poseSequence :: "AvatarPose list"
  isAnimating :: bool

text \<open>\<open>playGestureSequence\<close>, run to completion: an unknown gesture or an
  empty sequence is a no-op; otherwise the poses are shown one after the other
  and the avatar returns to the default pose.\<close>

definition playGestureSequence ::
  "AvatarRuntime \<Rightarrow> int \<Rightarrow> string \<Rightarrow> AvatarServiceState \<Rightarrow> AvatarServiceState"
where
  "playGestureSequence rt now gesture av =
     (case map_of (gestureAnimations (constructedAt rt)) gesture of
        None \<Rightarrow> av
      | Some anims \<Rightarrow>
          if length anims = 0 then av
          else av\<lparr>currentPose := Some (createDefaultPose now),
                  poseSequence := anims, isAnimating := False\<rparr>)"

section \<open>RealisticWebSocketHandler: sessions and dispatch\<close>

record ClientInfo =
  client_id :: string
  client_sessionId :: string
  lastActivity :: int

text \<open>
  The outbound events with their payloads. \<open>system-ready\<close> also carries the
  constant catalogues of the services (avatar model, gestures, voices), which
  are left out here.
\<close>

datatype event =
    SystemReady string int
  | SignDetected SignLanguageData
  | AvatarPoseUpdate AvatarPose
  | TextRecognized string real string int
  | TranslationResultEv TranslationResult
  | AutoVoicePlayed string string real int
  | AutoAvatarGesture string string string int
  | SignDescriptionEv string string int
  | HealthCheck int nat bool bool
  | ErrorEv string string

fun eventName :: "event \<Rightarrow> string" where
  "eventName (SystemReady _ _) = ''system-ready''"
| "eventName (SignDetected _) = ''sign-detected''"
| "eventName (AvatarPoseUpdate _) = ''avatar-pose-update''"
| "eventName (TextRecognized _ _ _ _) = ''text-recognized''"
| "eventName (TranslationResultEv _) = ''translation-result''"
| "eventName (AutoVoicePlayed _ _ _ _) = ''auto-voice-played''"
| "eventName (AutoAvatarGesture _ _ _ _) = ''auto-avatar-gesture''"
| "eventName (SignDescriptionEv _ _ _) = ''sign-description''"
| "eventName (HealthCheck _ _ _ _) = ''health-check''"
| "eventName (ErrorEv _ _) = ''error''"

text \<open>
  The handler's state. \<open>connectedClients\<close> and \<open>processingQueue\<close> are the two
  \<open>Map\<close>s, as association lists in insertion order. \<open>emitted\<close> records every
  \<open>socket.emit\<close> with the socket it went to, oldest first. \<open>activeIntervals\<close>
  holds the sockets whose health-check timer has not been cleared.
  \<open>framesInFlight\<close> and \<open>speechInFlight\<close> hold one entry per call of
  \<open>processFrame\<close> and \<open>speechToText\<close> that has been started and has not
  settled yet.
\<close>

record HandlerState =
  connectedClients :: "(string \<times> ClientInfo) list"
  processingQueue :: "(string \<times> bool) list"
  emitted :: "(string \<times> event) list"
  activeIntervals :: "string list"
  framesInFlight :: "string list"
  speechInFlight :: "string list"
  voiceService :: VoiceServiceState
  avatarService :: AvatarServiceState

definition initialState :: HandlerState where
  "initialState =
     \<lparr>connectedClients = [], processingQueue = [], emitted = [], activeIntervals = [],
      framesInFlight = [], speechInFlight = [],
      voiceService = \<lparr>isProcessing = False, tempFileCounter = 0\<rparr>,
      avatarService = \<lparr>currentPose = None, poseSequence = [], isAnimating = False\<rparr>\<rparr>"

definition emit :: "string \<Rightarrow> event \<Rightarrow> HandlerState \<Rightarrow> HandlerState" where
  "emit socketId ev st = st\<lparr>emitted := emitted st @ [(socketId, ev)]\<rparr>"

definition signKey :: "string \<Rightarrow> string" where
  "signKey clientId = ''sign-'' @ clientId"

definition voiceKey :: "string \<Rightarrow> string" where
  "voiceKey clientId = ''voice-'' @ clientId"

text \<open>\<open>processingQueue.get(key)\<close> read as a condition: true only for a stored
  \<open>true\<close>.\<close>

definition queueBusy :: "HandlerState \<Rightarrow> string \<Rightarrow> bool" where
  "queueBusy st key = (map_of (processingQueue st) key = Some True)"

definition setQueue :: "string \<Rightarrow> bool \<Rightarrow> HandlerState \<Rightarrow> HandlerState" where
  "setQueue key v st = st\<lparr>processingQueue := AList.update key v (processingQueue st)\<rparr>"

definition updateClientActivity :: "int \<Rightarrow> string \<Rightarrow> HandlerState \<Rightarrow> HandlerState" where
  "updateClientActivity now clientId st =
     (case map_of (connectedClients st) clientId of
        None \<Rightarrow> st
      | Some client \<Rightarrow>
          st\<lparr>connectedClients :=
               AList.update clientId (client\<lparr>lastActivity := now\<rparr>) (connectedClients st)\<rparr>)"

text \<open>\<open>signData.recognizedGesture && signData.recognizedGesture !== 'unknown'\<close>.\<close>

definition isKnownGesture :: "string option \<Rightarrow> bool" where
  "isKnownGesture g = (case g of None \<Rightarrow> False | Some n \<Rightarrow> n \<noteq> [] \<and> n \<noteq> ''unknown'')"

text \<open>
  \<open>processSignToVoiceAuto\<close>: everything is inside its own \<open>try\<close>, so it never
  throws; a rejected voice call becomes an \<open>error\<close> event.
\<close>

definition processSignToVoiceAuto ::
  "Platform \<Rightarrow> int \<Rightarrow> string \<Rightarrow> SignLanguageData \<Rightarrow> HandlerState \<Rightarrow> HandlerState"
where
  "processSignToVoiceAuto os now socketId signData st =
     (case recognizedGesture signData of
        None \<Rightarrow> st
      | Some g \<Rightarrow>
          if g = [] \<or> g = ''unknown'' then st
          else
            (case generateVoiceFromGesture os now g (voiceService st) of
               (Inl e, vs) \<Rightarrow>
                 emit socketId
                   (ErrorEv ''Failed to auto-convert sign to voice'' ''AUTO_SIGN_TO_VOICE_ERROR'')
                   (st\<lparr>voiceService := vs\<rparr>)
             | (Inr voiceText, vs) \<Rightarrow>
                 emit socketId (AutoVoicePlayed g voiceText (confidence signData) now)
                   (emit socketId
                      (TranslationResultEv
                         \<lparr>originalType = Sign, translatedText = voiceText,
                          tr_confidence = confidence signData, tr_timestamp = now,
                          tr_sessionId = sessionId signData\<rparr>)
                      (st\<lparr>voiceService := vs\<rparr>))))"

text \<open>
  The \<open>video-frame\<close> handler up to its first \<open>await\<close>. The flag test and its
  \<open>return\<close> are inside the \<open>try\<close>, so the \<open>finally\<close> block runs on that
  path too and stores \<open>false\<close>. The boolean says whether \<open>processFrame\<close> was
  called, that is, whether the handler is now suspended.
\<close>

definition video_frame_begin :: "int \<Rightarrow> string \<Rightarrow> HandlerState \<Rightarrow> bool \<times> HandlerState" where
  "video_frame_begin now clientId st =
     (if queueBusy st (signKey clientId)
      then (False, setQueue (signKey clientId) False st)
      else
        (let st1 = updateClientActivity now clientId (setQueue (signKey clientId) True st)
         in (True, st1\<lparr>framesInFlight := framesInFlight st1 @ [clientId]\<rparr>)))"

text \<open>
  The rest of the \<open>video-frame\<close> handler, run when \<open>processFrame\<close> settles
  with \<open>frameResult\<close> (\<open>Inl\<close> rejected, \<open>Inr None\<close> no detection), through the
  \<open>catch\<close> and the \<open>finally\<close> block. The later awaits are run to completion
  within this step.
\<close>

definition video_frame_resume ::
  "AvatarRuntime \<Rightarrow> Platform \<Rightarrow> int \<Rightarrow> string \<Rightarrow> string
     \<Rightarrow> js_error + SignLanguageData option \<Rightarrow> HandlerState \<Rightarrow> HandlerState"
where
  "video_frame_resume rt os now clientId sid frameResult st0 =
     (let st = st0\<lparr>framesInFlight := remove1 clientId (framesInFlight st0)\<rparr>;
          failed = ErrorEv ''Failed to process video frame'' ''REALISTIC_SIGN_PROCESSING_ERROR'';
          handled =
            (case frameResult of
               Inl e \<Rightarrow> emit clientId failed st
             | Inr None \<Rightarrow> st
             | Inr (Some detected) \<Rightarrow>
                 (let withSession = detected\<lparr>sessionId := sid\<rparr>;
                      signData =
                        (case recognizedGesture withSession of
                           None \<Rightarrow> withSession
                         | Some g \<Rightarrow>
                             if g \<noteq> [] \<and> g \<noteq> ''unknown''
                             then withSession\<lparr>gestureDescription :=
                                    Some (getGestureDescription g)\<rparr>
                             else withSession);
                      st1 = emit clientId (SignDetected signData) st
                  in case generateAvatarPose rt now signData of
                       Inl e \<Rightarrow> emit clientId failed st1
                     | Inr avatarPose \<Rightarrow>
                         (let st2 = emit clientId (AvatarPoseUpdate avatarPose) st1
                          in if isKnownGesture (recognizedGesture signData)
                                \<and> confidence signData > 0.7
                             then processSignToVoiceAuto os now clientId signData st2
                             else st2)))
      in setQueue (signKey clientId) False handled)"

definition video_frame_dispatch ::
  "AvatarRuntime \<Rightarrow> Platform \<Rightarrow> int \<Rightarrow> string \<Rightarrow> string
     \<Rightarrow> js_error + SignLanguageData option \<Rightarrow> HandlerState \<Rightarrow> HandlerState"
where
  "video_frame_dispatch rt os now clientId sid frameResult st =
     (case video_frame_begin now clientId st of
        (True, st1) \<Rightarrow> video_frame_resume rt os now clientId sid frameResult st1
      | (False, st1) \<Rightarrow> st1)"

text \<open>\<open>processVoiceToSignAuto\<close>: never throws either.\<close>

definition processVoiceToSignAuto ::
  "AvatarRuntime \<Rightarrow> int \<Rightarrow> string \<Rightarrow> string \<Rightarrow> string \<Rightarrow> HandlerState \<Rightarrow> HandlerState"
where
  "processVoiceToSignAuto rt now socketId sid spoken st =
     (let described =
            (let signDescription = handlerSignDescription spoken in
             emit socketId (SignDescriptionEv spoken signDescription now)
               (emit socketId
                  (TranslationResultEv
                     \<lparr>originalType = Voice, translatedText = signDescription,
                      tr_confidence = 0.6, tr_timestamp = now, tr_sessionId = sid\<rparr>) st))
      in case extractGestureFromText spoken of
           None \<Rightarrow> described
         | Some gesture \<Rightarrow>
             if gesture = [] then described
             else
               (let st1 = st\<lparr>avatarService :=
                              playGestureSequence rt now gesture (avatarService st)\<rparr>
                in emit socketId
                     (AutoAvatarGesture gesture spoken (getGestureDescription gesture) now)
                     (emit socketId
                        (TranslationResultEv
                           \<lparr>originalType = Voice, translatedText = ''Sign gesture: '' @ gesture,
                            tr_confidence = 0.85, tr_timestamp = now, tr_sessionId = sid\<rparr>)
                        st1)))"

text \<open>
  The \<open>audio-data\<close> handler up to its first \<open>await\<close>: the dropped event and
  the invalid format both return from inside the \<open>try\<close>, through the
  \<open>finally\<close> block.
\<close>

definition audio_data_begin ::
  "int \<Rightarrow> string \<Rightarrow> VoiceData option \<Rightarrow> HandlerState \<Rightarrow> bool \<times> HandlerState"
where
  "audio_data_begin now clientId payload st =
     (if queueBusy st (voiceKey clientId)
      then (False, setQueue (voiceKey clientId) False st)
      else
        (let st1 = updateClientActivity now clientId (setQueue (voiceKey clientId) True st)
         in if \<not> validateAudioFormat payload
            then (False,
                  setQueue (voiceKey clientId) False
                    (emit clientId (ErrorEv ''Invalid audio format'' ''AUDIO_FORMAT_ERROR'') st1))
            else (True, st1\<lparr>speechInFlight := speechInFlight st1 @ [clientId]\<rparr>)))"

text \<open>The rest of the \<open>audio-data\<close> handler, run when \<open>speechToText\<close> settles
  (it clears the voice service's \<open>isProcessing\<close> on both outcomes).\<close>

definition audio_data_resume ::
  "AvatarRuntime \<Rightarrow> int \<Rightarrow> string \<Rightarrow> string \<Rightarrow> js_error + string \<times> real
     \<Rightarrow> HandlerState \<Rightarrow> HandlerState"
where
  "audio_data_resume rt now clientId sid speechResult st0 =
     (let st = st0\<lparr>speechInFlight := remove1 clientId (speechInFlight st0),
                   voiceService := (voiceService st0)\<lparr>isProcessing := False\<rparr>\<rparr>;
          handled =
            (case speechResult of
               Inl e \<Rightarrow>
                 emit clientId
                   (ErrorEv ''Failed to process audio data'' ''REALISTIC_VOICE_PROCESSING_ERROR'') st
             | Inr (spoken, conf) \<Rightarrow>
                 processVoiceToSignAuto rt now clientId sid spoken
                   (emit clientId (TextRecognized spoken conf sid now) st))
      in setQueue (voiceKey clientId) False handled)"

definition audio_data_dispatch ::
  "AvatarRuntime \<Rightarrow> int \<Rightarrow> string \<Rightarrow> string \<Rightarrow> VoiceData option
     \<Rightarrow> js_error + string \<times> real \<Rightarrow> HandlerState \<Rightarrow> HandlerState"
where
  "audio_data_dispatch rt now clientId sid payload speechResult st =
     (case audio_data_begin now clientId payload st of
        (True, st1) \<Rightarrow> audio_data_resume rt now clientId sid speechResult st1
      | (False, st1) \<Rightarrow> st1)"

text \<open>Connection: store the client, emit \<open>system-ready\<close>, start the timer.\<close>

definition on_connection :: "int \<Rightarrow> string \<Rightarrow> string \<Rightarrow> HandlerState \<Rightarrow> HandlerState" where
  "on_connection now clientId sid st =
     (let st1 = st\<lparr>connectedClients :=
                    AList.update clientId
                      \<lparr>client_id = clientId, client_sessionId = sid, lastActivity = now\<rparr>
                      (connectedClients st)\<rparr>;
          st2 = emit clientId (SystemReady sid now) st1
      in st2\<lparr>activeIntervals := activeIntervals st2 @ [clientId]\<rparr>)"

definition on_disconnect :: "string \<Rightarrow> HandlerState \<Rightarrow> HandlerState" where
  "on_disconnect clientId st =
     st\<lparr>connectedClients := AList.delete clientId (connectedClients st),
        processingQueue :=
          AList.delete (voiceKey clientId) (AList.delete (signKey clientId) (processingQueue st))\<rparr>"

text \<open>The callback given to \<open>setInterval\<close>.\<close>

definition healthCheckTick :: "int \<Rightarrow> string \<Rightarrow> HandlerState \<Rightarrow> HandlerState" where
  "healthCheckTick now clientId st =
     (if map_of (connectedClients st) clientId \<noteq> None
      then emit clientId
             (HealthCheck now (length (connectedClients st))
                (queueBusy st (signKey clientId)) (queueBusy st (voiceKey clientId))) st
      else st\<lparr>activeIntervals := removeAll clientId (activeIntervals st)\<rparr>)"

definition healthCheckIntervalMs :: int where
  "healthCheckIntervalMs = 10000"

text \<open>The runtime runs the callback of a timer only while it is not cleared.\<close>

definition fireInterval :: "int \<Rightarrow> string \<Rightarrow> HandlerState \<Rightarrow> HandlerState" where
  "fireInterval now clientId st =
     (if clientId \<in> set (activeIntervals st) then healthCheckTick now clientId st else st)"

text \<open>
  The life of one session on an exact timer: connected at \<open>t0\<close>, its timer
  fires at \<open>t0 + T\<close>, \<open>t0 + 2T\<close>, ...; \<open>sessionTimeline t0 c disc k\<close> runs the
  first \<open>k\<close> firings. With \<open>disc = Some t\<close> the disconnect handler runs at
  time \<open>t\<close>, after a firing at the same instant and before every later one.
\<close>

fun sessionTimeline :: "int \<Rightarrow> string \<Rightarrow> int option \<Rightarrow> nat \<Rightarrow> HandlerState \<Rightarrow> HandlerState" where
  "sessionTimeline t0 clientId disc 0 st = st"
| "sessionTimeline t0 clientId disc (Suc k) st =
     (let before = sessionTimeline t0 clientId disc k st;
          prevTick = t0 + int k * healthCheckIntervalMs;
          tickTime = t0 + int (Suc k) * healthCheckIntervalMs;
          current =
            (case disc of
               None \<Rightarrow> before
             | Some t \<Rightarrow>
                 if prevTick \<le> t \<and> t < tickTime then on_disconnect clientId before else before)
      in fireInterval tickTime clientId current)"

text \<open>The timestamps of the \<open>health-check\<close> events sent to a socket, oldest first.\<close>

fun healthCheckTimes :: "string \<Rightarrow> (string \<times> event) list \<Rightarrow> int list" where
  "healthCheckTimes clientId [] = []"
| "healthCheckTimes clientId ((s, HealthCheck ts n a b) # rest) =
     (if s = clientId then ts # healthCheckTimes clientId rest
      else healthCheckTimes clientId rest)"
| "healthCheckTimes clientId (_ # rest) = healthCheckTimes clientId rest"

text \<open>How many events of a given name a socket was sent.\<close>

definition countEvents :: "string \<Rightarrow> string \<Rightarrow> (string \<times> event) list \<Rightarrow> nat" where
  "countEvents socketId evName evs =
     length (filter (\<lambda>(s, e). s = socketId \<and> eventName e = evName) evs)"

text \<open>The times of the first \<open>k\<close> firings of a timer started at \<open>t0\<close>.\<close>

definition tickTimes :: "int \<Rightarrow> nat \<Rightarrow> int list" where
  "tickTimes t0 k = map (\<lambda>i. t0 + int i * healthCheckIntervalMs) [1..<Suc k]"

section \<open>Properties of the translation service\<close>

lemma textToSign_hello_value:
  "textToSign ''hello'' =
     Some \<lparr>signDescription = ''Wave hand with open palm, fingers extended'',
           animations = createWaveAnimation, ttsr_confidence = 0.9\<rparr>"
  by code_simp

lemma createWaveAnimation_nonempty: "createWaveAnimation \<noteq> []"
  by (simp add: createWaveAnimation_def)

text \<open>
  C4 (what the code does): on the empty string the tokenizer yields the single
  empty token, which is a substring of the first key \<open>hello\<close> of the keyword
  map, so \<open>textToSign\<close> returns the wave animation with confidence 0.6
  instead of \<open>null\<close>; a whitespace-only input of two blanks yields two empty
  tokens and the wave animation twice.
\<close>

theorem textToSign_empty_returns_wave:
  "textToSign '''' =
     Some \<lparr>signDescription = ''Wave hand with open palm, fingers extended'',
           animations = createWaveAnimation, ttsr_confidence = 0.6\<rparr>
   \<and> textToSign ''  '' =
     Some \<lparr>signDescription =
             ''Wave hand with open palm, fingers extended, then Wave hand with open palm, fingers extended'',
           animations = createWaveAnimation @ createWaveAnimation, ttsr_confidence = 0.6\<rparr>"
  by code_simp

text \<open>
  C6: \<open>textToSign("hello")\<close> returns a result with confidence at least 0.9 and a
  non-empty animation sequence (the single wave animation of five keyframes);
  \<open>textToSign("xyzzyqq")\<close> returns a result with confidence 0.4 whose only
  animation is the fingerspelling of the token: gesture \<open>fingerspell\<close>,
  duration 7 * 800 ms, and one keyframe per letter, 800 ms apart, each naming
  its letter in upper case.
\<close>

theorem textToSign_hello_and_fallback:
  "(\<exists>r. textToSign ''hello'' = Some r \<and> 0.9 \<le> ttsr_confidence r \<and> animations r \<noteq> []
        \<and> map sa_gesture (animations r) = [''wave'']
        \<and> map (length \<circ> keyframes) (animations r) = [5])
   \<and> textToSign ''xyzzyqq'' =
       Some \<lparr>signDescription = ''Fingerspell: '' @ [CHR 0x22] @ ''xyzzyqq'' @ [CHR 0x22],
             animations =
               [\<lparr>sa_gesture = ''fingerspell'', sa_duration = 5600,
                 keyframes =
                   [\<lparr>kf_timestamp = 0, handPosition = (0, 0, 0), fingerPositions = [1, 1, 1, 1, 1],
                     kf_description = ''Spell letter: X''\<rparr>,
                    \<lparr>kf_timestamp = 800, handPosition = (0, 0, 0), fingerPositions = [1, 1, 1, 1, 1],
                     kf_description = ''Spell letter: Y''\<rparr>,
                    \<lparr>kf_timestamp = 1600, handPosition = (0, 0, 0), fingerPositions = [1, 1, 1, 1, 1],
                     kf_description = ''Spell letter: Z''\<rparr>,
                    \<lparr>kf_timestamp = 2400, handPosition = (0, 0, 0), fingerPositions = [1, 1, 1, 1, 1],
                     kf_description = ''Spell letter: Z''\<rparr>,
                    \<lparr>kf_timestamp = 3200, handPosition = (0, 0, 0), fingerPositions = [1, 1, 1, 1, 1],
                     kf_description = ''Spell letter: Y''\<rparr>,
                    \<lparr>kf_timestamp = 4000, handPosition = (0, 0, 0), fingerPositions = [1, 1, 1, 1, 1],
                     kf_description = ''Spell letter: Q''\<rparr>,
                    \<lparr>kf_timestamp = 4800, handPosition = (0, 0, 0), fingerPositions = [1, 1, 1, 1, 1],
                     kf_description = ''Spell letter: Q''\<rparr>],
                 sa_description = ''Fingerspell the word: xyzzyqq''\<rparr>],
             ttsr_confidence = 0.4\<rparr>"
proof
  show "\<exists>r. textToSign ''hello'' = Some r \<and> 0.9 \<le> ttsr_confidence r \<and> animations r \<noteq> []
        \<and> map sa_gesture (animations r) = [''wave'']
        \<and> map (length \<circ> keyframes) (animations r) = [5]"
    by (simp add: textToSign_hello_value createWaveAnimation_def)
next
  show "textToSign ''xyzzyqq'' =
       Some \<lparr>signDescription = ''Fingerspell: '' @ [CHR 0x22] @ ''xyzzyqq'' @ [CHR 0x22],
             animations =
               [\<lparr>sa_gesture = ''fingerspell'', sa_duration = 5600,
                 keyframes =
                   [\<lparr>kf_timestamp = 0, handPosition = (0, 0, 0), fingerPositions = [1, 1, 1, 1, 1],
                     kf_description = ''Spell letter: X''\<rparr>,
                    \<lparr>kf_timestamp = 800, handPosition = (0, 0, 0), fingerPositions = [1, 1, 1, 1, 1],
                     kf_description = ''Spell letter: Y''\<rparr>,
                    \<lparr>kf_timestamp = 1600, handPosition = (0, 0, 0), fingerPositions = [1, 1, 1, 1, 1],
                     kf_description = ''Spell letter: Z''\<rparr>,
                    \<lparr>kf_timestamp = 2400, handPosition = (0, 0, 0), fingerPositions = [1, 1, 1, 1, 1],
                     kf_description = ''Spell letter: Z''\<rparr>,
                    \<lparr>kf_timestamp = 3200, handPosition = (0, 0, 0), fingerPositions = [1, 1, 1, 1, 1],
                     kf_description = ''Spell letter: Y''\<rparr>,
                    \<lparr>kf_timestamp = 4000, handPosition = (0, 0, 0), fingerPositions = [1, 1, 1, 1, 1],
                     kf_description = ''Spell letter: Q''\<rparr>,
                    \<lparr>kf_timestamp = 4800, handPosition = (0, 0, 0), fingerPositions = [1, 1, 1, 1, 1],
                     kf_description = ''Spell letter: Q''\<rparr>],
                 sa_description = ''Fingerspell the word: xyzzyqq''\<rparr>],
             ttsr_confidence = 0.4\<rparr>"
    by code_simp
qed

text \<open>
  C7: whenever \<open>signToText\<close> returns a result, its confidence is the minimum of
  the classifier's confidence for the observation's landmarks and the
  observation's own confidence, and so never exceeds the latter.
\<close>

theorem signToText_confidence_min:
  assumes "signToText nowPush nowClean signData buf = (Some r, buf')"
  shows "\<exists>g c. recognizeGestureFromLandmarks (landmarks signData) = Inr (Some (g, c))
           \<and> str_confidence r = min c (confidence signData)
           \<and> str_confidence r \<le> confidence signData"
  using assms
  by (auto simp: signToText_def Let_def split: sum.splits option.splits prod.splits)

theorem signToText_confidence_min_witness:
  "signToText 1000 1001
      \<lparr>landmarks = Some [Some ([0, 1] @ replicate 61 0)], confidence = 0.5, timestamp = 990,
        sessionId = ''s'', recognizedGesture = None, gestureDescription = None\<rparr> []
     = (Some \<lparr>str_text = ''Hello'', str_confidence = 0.5, str_gesture = ''hello''\<rparr>,
        [(''hello'', 1000)])
   \<and> (\<exists>g c. recognizeGestureFromLandmarks
         (landmarks \<lparr>landmarks = Some [Some ([0, 1] @ replicate 61 0)], confidence = 0.5,
            timestamp = 990, sessionId = ''s'', recognizedGesture = None,
            gestureDescription = None\<rparr>) = Inr (Some (g, c))
       \<and> str_confidence \<lparr>str_text = ''Hello'', str_confidence = 0.5, str_gesture = ''hello''\<rparr>
           = min c (confidence \<lparr>landmarks = Some [Some ([0, 1] @ replicate 61 0)],
                 confidence = 0.5, timestamp = 990, sessionId = ''s'',
                 recognizedGesture = None, gestureDescription = None\<rparr>)
       \<and> str_confidence \<lparr>str_text = ''Hello'', str_confidence = 0.5, str_gesture = ''hello''\<rparr>
           \<le> confidence \<lparr>landmarks = Some [Some ([0, 1] @ replicate 61 0)],
                 confidence = 0.5, timestamp = 990, sessionId = ''s'',
                 recognizedGesture = None, gestureDescription = None\<rparr>)"
proof -
  have run: "signToText 1000 1001
      \<lparr>landmarks = Some [Some ([0, 1] @ replicate 61 0)], confidence = 0.5, timestamp = 990,
        sessionId = ''s'', recognizedGesture = None, gestureDescription = None\<rparr> []
     = (Some \<lparr>str_text = ''Hello'', str_confidence = 0.5, str_gesture = ''hello''\<rparr>,
        [(''hello'', 1000)])"
    by code_simp
  show ?thesis
    by (rule conjI [OF run signToText_confidence_min [OF run]])
qed

section \<open>Properties of keyword extraction and audio validation\<close>

lemma keywordScan_first:
  "list_all (\<lambda>e. \<not> str_includes t (fst e)) before \<Longrightarrow> str_includes t k
   \<Longrightarrow> keywordScan (before @ (k, g) # after) t = Some g"
  by (induction before) auto

text \<open>
  C5: when the keyword list splits into the entries before \<open>(k, g)\<close>, none of
  whose keywords occurs in the lower-cased text, the entry \<open>(k, g)\<close> whose
  keyword does occur, and the rest, keyword extraction returns \<open>g\<close>: the
  gesture of the first matching entry in the declared order. In particular
  "thank you so much" gives \<open>thank_you\<close>.
\<close>

theorem extractGestureFromText_first_match:
  assumes "gestureKeywords = before @ (k, g) # after"
    and "list_all (\<lambda>e. \<not> str_includes (toLowerCase text) (fst e)) before"
    and "str_includes (toLowerCase text) k"
  shows "extractGestureFromText text = Some g
       \<and> extractGestureFromText ''thank you so much'' = Some ''thank_you''"
proof
  have "keywordScan gestureKeywords (toLowerCase text) = Some g"
    using keywordScan_first [OF assms(2,3), of g after] assms(1) by simp
  then show "extractGestureFromText text = Some g"
    by (simp add: extractGestureFromText_def)
next
  show "extractGestureFromText ''thank you so much'' = Some ''thank_you''"
    by code_simp
qed

theorem extractGestureFromText_first_match_witness:
  "gestureKeywords
     = take 10 gestureKeywords @ (''thank you'', ''thank_you'') # drop 11 gestureKeywords
   \<and> list_all (\<lambda>e. \<not> str_includes (toLowerCase ''thank you so much'') (fst e))
       (take 10 gestureKeywords)
   \<and> str_includes (toLowerCase ''thank you so much'') ''thank you''
   \<and> extractGestureFromText ''thank you so much'' = Some ''thank_you''"
proof -
  have split: "gestureKeywords
     = take 10 gestureKeywords @ (''thank you'', ''thank_you'') # drop 11 gestureKeywords"
    by (simp add: gestureKeywords_def)
  have none_before: "list_all (\<lambda>e. \<not> str_includes (toLowerCase ''thank you so much'') (fst e))
       (take 10 gestureKeywords)"
    by code_simp
  have found: "str_includes (toLowerCase ''thank you so much'') ''thank you''"
    by code_simp
  from extractGestureFromText_first_match [OF split none_before found] split none_before found
  show ?thesis by blast
qed

text \<open>
  C10: \<open>validateAudioFormat\<close> answers true exactly when the payload is present,
  its buffer is present with a positive byte length, the duration lies in
  \<open>[0.1, 30]\<close> and the sample rate is one of 16000, 22050, 44100, 48000. It is
  a total function into the booleans: every other input gives false.
\<close>

theorem validateAudioFormat_iff:
  "validateAudioFormat audioData =
     (\<exists>d n. audioData = Some d \<and> audioBuffer d = Some n \<and> 0 < n
        \<and> 0.1 \<le> duration d \<and> duration d \<le> 30
        \<and> sampleRate d \<in> {16000, 22050, 44100, 48000})"
  by (auto simp: validateAudioFormat_def validSampleRates_def split: option.splits)

section \<open>Properties of the avatar service\<close>



section \<open>Properties of the dispatch\<close>

lemma map_of_setQueue: "map_of (processingQueue (setQueue k v st)) k = Some v"
  by (simp add: setQueue_def update_conv')

lemma hello_voice:
  "get_truthy signToVoiceTranslations ''hello'' = Some ''Hello there! Nice to meet you.''"
  by code_simp

lemma hello_description:
  "getGestureDescription ''hello'' = ''Open palm, fingers extended, gentle wave motion''"
  by code_simp

lemma hello_pose:
  "recognizedGesture sd = Some ''hello'' \<Longrightarrow>
     generateAvatarPose rt now sd = Inr (createHelloAnimation (constructedAt rt) ! 1)"
  by (simp add: generateAvatarPose_def generateAvatarPose_try_def gestureAnimations_def
        createHelloAnimation_def)

text \<open>What holds of a dropped \<open>video-frame\<close> event: nothing is emitted and no
  call is started, but the flag is left clear.\<close>

lemma video_frame_drop_silent:
  assumes "queueBusy st (signKey c)"
  shows "\<exists>st'. video_frame_begin now c st = (False, st') \<and> emitted st' = emitted st
           \<and> framesInFlight st' = framesInFlight st \<and> \<not> queueBusy st' (signKey c)"
  using assms
  by (simp add: video_frame_begin_def setQueue_def queueBusy_def update_conv')

text \<open>
  C1 (what the code does): one client, three \<open>video-frame\<close> events, the second
  and third arriving while the first \<open>processFrame\<close> call is unsettled. The
  second is dropped without an emission and without a call, but its
  \<open>finally\<close> block stores \<open>false\<close> in the busy flag, so the third starts a
  second call: two calls of the same session are in flight.
\<close>

theorem dropped_frame_clears_busy_flag:
  "(let st0 = on_connection 0 ''c1'' ''s1'' initialState;
        (started1, st1) = video_frame_begin 1 ''c1'' st0;
        (started2, st2) = video_frame_begin 2 ''c1'' st1;
        (started3, st3) = video_frame_begin 3 ''c1'' st2
    in started1 \<and> queueBusy st1 (signKey ''c1'') \<and> framesInFlight st1 = [''c1'']
       \<and> started2 = False \<and> emitted st2 = emitted st1 \<and> framesInFlight st2 = [''c1'']
       \<and> queueBusy st2 (signKey ''c1'') = False
       \<and> started3 \<and> framesInFlight st3 = [''c1'', ''c1''])"
  by code_simp

lemma video_frame_resume_hello:
  assumes "recognizedGesture obs = Some ''hello''"
  shows "emitted (video_frame_resume rt os now c sid (Inr (Some (obs\<lparr>confidence := 0.75\<rparr>))) st)
      = emitted st @
        [(c, SignDetected (obs\<lparr>confidence := 0.75, sessionId := sid,
              gestureDescription := Some ''Open palm, fingers extended, gentle wave motion''\<rparr>)),
         (c, AvatarPoseUpdate (createHelloAnimation (constructedAt rt) ! 1)),
         (c, TranslationResultEv
               \<lparr>originalType = Sign, translatedText = ''Hello there! Nice to meet you.'',
                tr_confidence = 0.75, tr_timestamp = now, tr_sessionId = sid\<rparr>),
         (c, AutoVoicePlayed ''hello'' ''Hello there! Nice to meet you.'' 0.75 now)]"
    and "emitted (video_frame_resume rt os now c sid (Inr (Some (obs\<lparr>confidence := 0.5\<rparr>))) st)
      = emitted st @
        [(c, SignDetected (obs\<lparr>confidence := 0.5, sessionId := sid,
              gestureDescription := Some ''Open palm, fingers extended, gentle wave motion''\<rparr>)),
         (c, AvatarPoseUpdate (createHelloAnimation (constructedAt rt) ! 1))]"
  using assms
  by (simp_all add: video_frame_resume_def Let_def hello_pose hello_description hello_voice
        isKnownGesture_def processSignToVoiceAuto_def generateVoiceFromGesture_def
        textToSpeech_def emit_def setQueue_def)

lemma video_frame_begin_free:
  assumes "\<not> queueBusy st (signKey c)"
  shows "\<exists>st1. video_frame_begin now c st = (True, st1) \<and> emitted st1 = emitted st"
  using assms
  by (simp add: video_frame_begin_def Let_def updateClientActivity_def setQueue_def
        split: option.splits)

text \<open>
  C2: a \<open>video-frame\<close> dispatch that finds the busy flag free and whose
  \<open>processFrame\<close> call resolves with an observation of the gesture \<open>hello\<close>
  emits, for confidence 0.75, one \<open>sign-detected\<close>, one \<open>avatar-pose-update\<close>,
  one \<open>translation-result\<close> of original type sign and one
  \<open>auto-voice-played\<close>, in this order and nothing else; for confidence 0.5 it
  emits the first two only.
\<close>

theorem auto_chain_hello:
  assumes "recognizedGesture obs = Some ''hello''" and "\<not> queueBusy st (signKey c)"
  shows "emitted (video_frame_dispatch rt os now c sid (Inr (Some (obs\<lparr>confidence := 0.75\<rparr>))) st)
      = emitted st @
        [(c, SignDetected (obs\<lparr>confidence := 0.75, sessionId := sid,
              gestureDescription := Some ''Open palm, fingers extended, gentle wave motion''\<rparr>)),
         (c, AvatarPoseUpdate (createHelloAnimation (constructedAt rt) ! 1)),
         (c, TranslationResultEv
               \<lparr>originalType = Sign, translatedText = ''Hello there! Nice to meet you.'',
                tr_confidence = 0.75, tr_timestamp = now, tr_sessionId = sid\<rparr>),
         (c, AutoVoicePlayed ''hello'' ''Hello there! Nice to meet you.'' 0.75 now)]
    \<and> emitted (video_frame_dispatch rt os now c sid (Inr (Some (obs\<lparr>confidence := 0.5\<rparr>))) st)
      = emitted st @
        [(c, SignDetected (obs\<lparr>confidence := 0.5, sessionId := sid,
              gestureDescription := Some ''Open palm, fingers extended, gentle wave motion''\<rparr>)),
         (c, AvatarPoseUpdate (createHelloAnimation (constructedAt rt) ! 1))]"
proof -
  from video_frame_begin_free [OF assms(2)] obtain st1
    where started: "video_frame_begin now c st = (True, st1)" and same: "emitted st1 = emitted st"
    by blast
  show ?thesis
    using video_frame_resume_hello [OF assms(1), of rt os now c sid st1]
    by (simp add: video_frame_dispatch_def started same)
qed

theorem auto_chain_hello_witness:
  "recognizedGesture
      \<lparr>landmarks = None, confidence = 0.9, timestamp = 5, sessionId = [],
       recognizedGesture = Some ''hello'', gestureDescription = None\<rparr> = Some ''hello''
   \<and> queueBusy initialState (signKey ''c1'') = False
   \<and> map (\<lambda>name. countEvents ''c1'' name
        (emitted (video_frame_dispatch \<lparr>constructedAt = 0, atan2 = (\<lambda>y x. 0)\<rparr>
           \<lparr>sayCommandSucceeds = False, outputFileAccessible = False, audioOutputDir = ''/tmp''\<rparr>
           7 ''c1'' ''s1''
           (Inr (Some (\<lparr>landmarks = None, confidence = 0.9, timestamp = 5, sessionId = [],
                  recognizedGesture = Some ''hello'', gestureDescription = None\<rparr>
                  \<lparr>confidence := 0.75\<rparr>)))
           initialState)))
       [''sign-detected'', ''avatar-pose-update'', ''translation-result'', ''auto-voice-played'',
        ''error'']
     = [1, 1, 1, 1, 0]
   \<and> map (\<lambda>name. countEvents ''c1'' name
        (emitted (video_frame_dispatch \<lparr>constructedAt = 0, atan2 = (\<lambda>y x. 0)\<rparr>
           \<lparr>sayCommandSucceeds = False, outputFileAccessible = False, audioOutputDir = ''/tmp''\<rparr>
           7 ''c1'' ''s1''
           (Inr (Some (\<lparr>landmarks = None, confidence = 0.9, timestamp = 5, sessionId = [],
                  recognizedGesture = Some ''hello'', gestureDescription = None\<rparr>
                  \<lparr>confidence := 0.5\<rparr>)))
           initialState)))
       [''sign-detected'', ''avatar-pose-update'', ''translation-result'', ''auto-voice-played'',
        ''error'']
     = [1, 1, 0, 0, 0]"
proof -
  have gesture: "recognizedGesture
      \<lparr>landmarks = None, confidence = 0.9, timestamp = 5, sessionId = [],
       recognizedGesture = Some ''hello'', gestureDescription = None\<rparr> = Some ''hello''"
    by simp
  have free: "\<not> queueBusy initialState (signKey ''c1'')"
    by (simp add: queueBusy_def initialState_def)
  show ?thesis
    using auto_chain_hello [OF gesture free, of "\<lparr>constructedAt = 0, atan2 = (\<lambda>y x. 0)\<rparr>"
        "\<lparr>sayCommandSucceeds = False, outputFileAccessible = False, audioOutputDir = ''/tmp''\<rparr>"
        7 "''s1''"] free
    by (simp add: countEvents_def initialState_def)
qed

text \<open>
  C3: when a \<open>video-frame\<close> or \<open>audio-data\<close> dispatch has finished, whatever
  the awaited call answered (resolved, rejected, no detection) and whether it
  returned early (dropped event, invalid audio format), the busy flag of its
  category holds \<open>false\<close>. The same holds for the part of the handler that runs
  after the await, from any state.
\<close>

theorem busy_flag_cleared_on_every_exit:
  "map_of (processingQueue (video_frame_dispatch rt os now c sid frameResult st)) (signKey c)
     = Some False
   \<and> map_of (processingQueue (audio_data_dispatch rt now c sid payload speechResult st))
       (voiceKey c) = Some False
   \<and> map_of (processingQueue (video_frame_resume rt os now c sid frameResult st)) (signKey c)
       = Some False
   \<and> map_of (processingQueue (audio_data_resume rt now c sid speechResult st)) (voiceKey c)
       = Some False"
  by (simp add: video_frame_dispatch_def audio_data_dispatch_def video_frame_begin_def
        audio_data_begin_def video_frame_resume_def audio_data_resume_def map_of_setQueue
        Let_def split: prod.splits)

section \<open>Properties of the health-check timer\<close>

lemma healthCheckTimes_append:
  "healthCheckTimes c (xs @ ys) = healthCheckTimes c xs @ healthCheckTimes c ys"
  by (induction c xs rule: healthCheckTimes.induct) simp_all

lemma healthCheckTimes_emit_tick:
  "healthCheckTimes c (emitted (emit c (HealthCheck ts n a b) st))
     = healthCheckTimes c (emitted st) @ [ts]"
  by (simp add: emit_def healthCheckTimes_append)

lemma on_connection_props:
  "map_of (connectedClients (on_connection t0 c sid st)) c \<noteq> None"
  "c \<in> set (activeIntervals (on_connection t0 c sid st))"
  "healthCheckTimes c (emitted (on_connection t0 c sid st)) = healthCheckTimes c (emitted st)"
  by (simp_all add: on_connection_def emit_def Let_def update_conv' healthCheckTimes_append)

lemma fireInterval_connected:
  assumes "map_of (connectedClients st) c \<noteq> None" "c \<in> set (activeIntervals st)"
  shows "connectedClients (fireInterval ts c st) = connectedClients st"
    and "activeIntervals (fireInterval ts c st) = activeIntervals st"
    and "healthCheckTimes c (emitted (fireInterval ts c st)) = healthCheckTimes c (emitted st) @ [ts]"
  using assms
  by (simp_all add: fireInterval_def healthCheckTick_def healthCheckTimes_emit_tick)
     (simp_all add: emit_def)

lemma fireInterval_gone:
  assumes "map_of (connectedClients st) c = None"
  shows "connectedClients (fireInterval ts c st) = connectedClients st"
    and "c \<notin> set (activeIntervals (fireInterval ts c st))"
    and "emitted (fireInterval ts c st) = emitted st"
  using assms by (simp_all add: fireInterval_def healthCheckTick_def)

lemma on_disconnect_props:
  "map_of (connectedClients (on_disconnect c st)) c = None"
  "activeIntervals (on_disconnect c st) = activeIntervals st"
  "emitted (on_disconnect c st) = emitted st"
  by (simp_all add: on_disconnect_def delete_conv')

lemma tickTimes_0: "tickTimes t0 0 = []"
  by (simp add: tickTimes_def)

lemma tickTimes_Suc:
  "tickTimes t0 (Suc k) = tickTimes t0 k @ [t0 + int (Suc k) * healthCheckIntervalMs]"
  by (simp add: tickTimes_def)

lemma sessionTimeline_Suc_None:
  "sessionTimeline t0 c None (Suc k) st
     = fireInterval (t0 + int (Suc k) * healthCheckIntervalMs) c (sessionTimeline t0 c None k st)"
  by (simp add: Let_def)

lemma sessionTimeline_Suc_Some:
  "sessionTimeline t0 c (Some t) (Suc k) st
     = fireInterval (t0 + int (Suc k) * healthCheckIntervalMs) c
         (if t0 + int k * healthCheckIntervalMs \<le> t
             \<and> t < t0 + int (Suc k) * healthCheckIntervalMs
          then on_disconnect c (sessionTimeline t0 c (Some t) k st)
          else sessionTimeline t0 c (Some t) k st)"
  by (simp add: Let_def)

lemma timeline_None:
  assumes "map_of (connectedClients st) c \<noteq> None" "c \<in> set (activeIntervals st)"
  shows "map_of (connectedClients (sessionTimeline t0 c None k st)) c \<noteq> None
       \<and> c \<in> set (activeIntervals (sessionTimeline t0 c None k st))
       \<and> healthCheckTimes c (emitted (sessionTimeline t0 c None k st))
           = healthCheckTimes c (emitted st) @ tickTimes t0 k"
proof (induction k)
  case 0
  then show ?case using assms by (simp add: tickTimes_0)
next
  case (Suc k)
  then show ?case
    using fireInterval_connected
      [of "sessionTimeline t0 c None k st" c "t0 + int (Suc k) * healthCheckIntervalMs"]
    by (simp only: sessionTimeline_Suc_None tickTimes_Suc) simp
qed

lemma timeline_Some_before:
  assumes "map_of (connectedClients st) c \<noteq> None" "c \<in> set (activeIntervals st)"
    and "t0 + int k * healthCheckIntervalMs \<le> t"
  shows "map_of (connectedClients (sessionTimeline t0 c (Some t) k st)) c \<noteq> None
       \<and> c \<in> set (activeIntervals (sessionTimeline t0 c (Some t) k st))
       \<and> healthCheckTimes c (emitted (sessionTimeline t0 c (Some t) k st))
           = healthCheckTimes c (emitted st) @ tickTimes t0 k"
  using assms(3)
proof (induction k)
  case 0
  then show ?case using assms(1,2) by (simp add: tickTimes_0)
next
  case (Suc k)
  have pre: "t0 + int k * healthCheckIntervalMs \<le> t"
    using Suc.prems by (simp add: healthCheckIntervalMs_def)
  have no_disc: "\<not> (t0 + int k * healthCheckIntervalMs \<le> t
                    \<and> t < t0 + int (Suc k) * healthCheckIntervalMs)"
    using Suc.prems by simp
  show ?case
    using Suc.IH [OF pre]
      fireInterval_connected
        [of "sessionTimeline t0 c (Some t) k st" c "t0 + int (Suc k) * healthCheckIntervalMs"]
    by (simp only: sessionTimeline_Suc_Some tickTimes_Suc no_disc if_False) simp
qed

lemma ticks_before_disconnect:
  assumes "t0 + int k * healthCheckIntervalMs \<le> t"
    and "t < t0 + int (Suc k) * healthCheckIntervalMs"
  shows "nat ((t - t0) div healthCheckIntervalMs) = k"
proof -
  have "int k * 10000 \<le> t - t0" "t - t0 < (int k + 1) * 10000"
    using assms by (simp_all add: healthCheckIntervalMs_def algebra_simps)
  then have "(t - t0) div 10000 = int k"
    by (intro int_div_pos_eq [where r = "t - t0 - int k * 10000"]) simp_all
  then show ?thesis by (simp add: healthCheckIntervalMs_def)
qed

lemma timeline_disconnected:
  assumes "map_of (connectedClients st) c \<noteq> None" "c \<in> set (activeIntervals st)"
    and "t0 \<le> t" and "t < t0 + int k * healthCheckIntervalMs"
  shows "map_of (connectedClients (sessionTimeline t0 c (Some t) k st)) c = None
       \<and> c \<notin> set (activeIntervals (sessionTimeline t0 c (Some t) k st))
       \<and> healthCheckTimes c (emitted (sessionTimeline t0 c (Some t) k st))
           = healthCheckTimes c (emitted st)
             @ tickTimes t0 (nat ((t - t0) div healthCheckIntervalMs))"
  using assms(4)
proof (induction k)
  case 0
  then show ?case using assms(3) by simp
next
  case (Suc k)
  let ?b = "sessionTimeline t0 c (Some t) k st"
  let ?tick = "t0 + int (Suc k) * healthCheckIntervalMs"
  show ?case
  proof (cases "t < t0 + int k * healthCheckIntervalMs")
    case True
    then have no_disc: "\<not> (t0 + int k * healthCheckIntervalMs \<le> t \<and> t < ?tick)"
      by simp
    show ?thesis
      using Suc.IH [OF True] fireInterval_gone [of ?b c ?tick]
      by (simp only: sessionTimeline_Suc_Some no_disc if_False) simp
  next
    case False
    then have le: "t0 + int k * healthCheckIntervalMs \<le> t" by simp
    have disc: "t0 + int k * healthCheckIntervalMs \<le> t \<and> t < ?tick"
      using le Suc.prems by simp
    show ?thesis
      using timeline_Some_before [OF assms(1,2) le] on_disconnect_props [of c ?b]
        fireInterval_gone [of "on_disconnect c ?b" c ?tick]
        ticks_before_disconnect [OF le Suc.prems]
      by (simp only: sessionTimeline_Suc_Some disc if_True) simp
  qed
qed

lemma tickTimes_le:
  assumes "ts \<in> set (tickTimes t0 k)"
  shows "ts \<le> t0 + int k * healthCheckIntervalMs"
proof -
  from assms have "ts \<in> (\<lambda>i. t0 + int i * healthCheckIntervalMs) ` {1..<Suc k}"
    by (simp only: tickTimes_def set_map set_upt)
  then obtain i where "i < Suc k" and "ts = t0 + int i * healthCheckIntervalMs"
    by force
  then show ?thesis by (simp add: healthCheckIntervalMs_def)
qed

lemma div_mult_le_int:
  "0 \<le> (d::int) \<Longrightarrow> int (nat (d div healthCheckIntervalMs)) * healthCheckIntervalMs \<le> d"
  by (simp add: healthCheckIntervalMs_def pos_imp_zdiv_nonneg_iff)

lemma timeline_times_bounded:
  assumes "map_of (connectedClients st) c \<noteq> None" "c \<in> set (activeIntervals st)"
    and "t0 \<le> t"
  shows "\<exists>new. healthCheckTimes c (emitted (sessionTimeline t0 c (Some t) k st))
                 = healthCheckTimes c (emitted st) @ new
               \<and> (\<forall>ts \<in> set new. ts \<le> t)"
proof (cases "t < t0 + int k * healthCheckIntervalMs")
  case True
  let ?m = "nat ((t - t0) div healthCheckIntervalMs)"
  have eq: "healthCheckTimes c (emitted (sessionTimeline t0 c (Some t) k st))
           = healthCheckTimes c (emitted st) @ tickTimes t0 ?m"
    using timeline_disconnected [OF assms True] by blast
  have "\<forall>ts \<in> set (tickTimes t0 ?m). ts \<le> t"
  proof
    fix ts assume "ts \<in> set (tickTimes t0 ?m)"
    from tickTimes_le [OF this] div_mult_le_int [of "t - t0"] assms(3)
    show "ts \<le> t" by simp
  qed
  with eq show ?thesis by blast
next
  case False
  then have le: "t0 + int k * healthCheckIntervalMs \<le> t" by simp
  have eq: "healthCheckTimes c (emitted (sessionTimeline t0 c (Some t) k st))
           = healthCheckTimes c (emitted st) @ tickTimes t0 k"
    using timeline_Some_before [OF assms(1,2) le] by blast
  have "\<forall>ts \<in> set (tickTimes t0 k). ts \<le> t"
    using tickTimes_le le by fastforce
  with eq show ?thesis by blast
qed

text \<open>
  C9, on an exact timer of period \<open>T\<close> = 10000 ms started at the connection
  time \<open>t0\<close>: a session that stays connected has received \<open>N div T\<close> health-check
  events \<open>N\<close> ms after it connected; a session disconnected at time \<open>t\<close>
  receives, whatever the number \<open>k\<close> of firings, only health-check events
  stamped at most \<open>t\<close>, hence none stamped later than \<open>t + T\<close>; and once a
  firing later than \<open>t\<close> has run, the timer is cleared.
\<close>

theorem health_check_ticks:
  assumes "t0 \<le> t"
  shows "length (healthCheckTimes c (emitted
            (sessionTimeline t0 c None (nat (N div healthCheckIntervalMs))
               (on_connection t0 c sid st))))
           = length (healthCheckTimes c (emitted st)) + nat (N div healthCheckIntervalMs)
       \<and> (\<exists>new. healthCheckTimes c
                   (emitted (sessionTimeline t0 c (Some t) k (on_connection t0 c sid st)))
                 = healthCheckTimes c (emitted st) @ new
               \<and> (\<forall>ts \<in> set new. ts \<le> t \<and> \<not> t + healthCheckIntervalMs < ts))
       \<and> (t < t0 + int k * healthCheckIntervalMs \<longrightarrow>
            c \<notin> set (activeIntervals
                       (sessionTimeline t0 c (Some t) k (on_connection t0 c sid st))))"
proof (intro conjI impI)
  let ?st = "on_connection t0 c sid st"
  let ?n = "nat (N div healthCheckIntervalMs)"
  have "healthCheckTimes c (emitted (sessionTimeline t0 c None ?n ?st))
          = healthCheckTimes c (emitted ?st) @ tickTimes t0 ?n"
    using timeline_None [OF on_connection_props(1,2)] by blast
  then show "length (healthCheckTimes c (emitted (sessionTimeline t0 c None ?n ?st)))
           = length (healthCheckTimes c (emitted st)) + ?n"
    by (simp add: on_connection_props(3) tickTimes_def)
next
  let ?st = "on_connection t0 c sid st"
  obtain new where new:
    "healthCheckTimes c (emitted (sessionTimeline t0 c (Some t) k ?st))
       = healthCheckTimes c (emitted ?st) @ new" "\<forall>ts \<in> set new. ts \<le> t"
    using timeline_times_bounded [OF on_connection_props(1,2) assms] by blast
  from new(2) have "\<forall>ts \<in> set new. ts \<le> t \<and> \<not> t + healthCheckIntervalMs < ts"
    by (auto simp: healthCheckIntervalMs_def)
  with new(1) show "\<exists>new. healthCheckTimes c (emitted (sessionTimeline t0 c (Some t) k ?st))
                 = healthCheckTimes c (emitted st) @ new
               \<and> (\<forall>ts \<in> set new. ts \<le> t \<and> \<not> t + healthCheckIntervalMs < ts)"
    by (simp add: on_connection_props(3))
next
  let ?st = "on_connection t0 c sid st"
  assume "t < t0 + int k * healthCheckIntervalMs"
  from timeline_disconnected [OF on_connection_props(1,2) assms this]
  show "c \<notin> set (activeIntervals (sessionTimeline t0 c (Some t) k ?st))"
    by blast
qed

theorem health_check_ticks_witness:
  "(0::int) \<le> 25000
   \<and> (25000::int) < 0 + int 4 * healthCheckIntervalMs
   \<and> healthCheckTimes ''c1'' (emitted
        (sessionTimeline 0 ''c1'' None (nat (35000 div healthCheckIntervalMs))
           (on_connection 0 ''c1'' ''s1'' initialState))) = [10000, 20000, 30000]
   \<and> length (healthCheckTimes ''c1'' (emitted
        (sessionTimeline 0 ''c1'' None (nat (35000 div healthCheckIntervalMs))
           (on_connection 0 ''c1'' ''s1'' initialState)))) = 3
   \<and> healthCheckTimes ''c1'' (emitted
        (sessionTimeline 0 ''c1'' (Some 25000) 4 (on_connection 0 ''c1'' ''s1'' initialState)))
       = [10000, 20000]
   \<and> ''c1'' \<notin> set (activeIntervals
        (sessionTimeline 0 ''c1'' (Some 25000) 4 (on_connection 0 ''c1'' ''s1'' initialState)))"
proof -
  have h1: "(0::int) \<le> 25000" by simp
  have h2: "(25000::int) < 0 + int 4 * healthCheckIntervalMs"
    by (simp add: healthCheckIntervalMs_def)
  have none_before: "healthCheckTimes ''c1'' (emitted initialState) = []"
    by (simp add: initialState_def)
  have connected: "healthCheckTimes ''c1'' (emitted
        (sessionTimeline 0 ''c1'' None (nat (35000 div healthCheckIntervalMs))
           (on_connection 0 ''c1'' ''s1'' initialState))) = [10000, 20000, 30000]"
    by code_simp
  have disconnected: "healthCheckTimes ''c1'' (emitted
        (sessionTimeline 0 ''c1'' (Some 25000) 4 (on_connection 0 ''c1'' ''s1'' initialState)))
       = [10000, 20000]"
    by code_simp
  note inst = health_check_ticks [OF h1, of "''c1''" 35000 "''s1''" initialState 4]
  from inst none_before have len: "length (healthCheckTimes ''c1'' (emitted
        (sessionTimeline 0 ''c1'' None (nat (35000 div healthCheckIntervalMs))
           (on_connection 0 ''c1'' ''s1'' initialState)))) = 3"
    by (simp add: healthCheckIntervalMs_def)
  from inst h2 have cleared: "''c1'' \<notin> set (activeIntervals
        (sessionTimeline 0 ''c1'' (Some 25000) 4 (on_connection 0 ''c1'' ''s1'' initialState)))"
    by blast
  from h1 h2 connected len disconnected cleared show ?thesis by blast
qed

end
